theory Spec2Isabelle
  imports Main "HOL-Library.Word"
begin

section \<open>JavaScript values\<close>

text \<open>
  The page controller \<^verbatim>\<open>web/view_programs.js\<close> works on values parsed from JSON and on
  values read from the DOM. They are modelled by one datatype. A number is an integer
  (the identifiers, intervals and durations of the data model) between \<open>-2\<^sup>5\<^sup>3\<close> and
  \<open>2\<^sup>5\<^sup>3 - 1\<close>, the range in which every integer is a number of JavaScript and is
  printed in decimal: it is carried by a 54-bit word and read with \<open>sint\<close>, and no
  arithmetic is done on the word. Other numbers (fractions, larger magnitudes) are
  not values of the model, but for \<open>JNaN\<close>, the one number that is falsy without being
  zero. Arrays and objects carry their elements; an object lists its own properties in
  the order \<^verbatim>\<open>Object.keys\<close> enumerates them.
\<close>

datatype jsval =
    JUndefined
  | JNull
  | JBool bool
  | JNum "54 word"
  | JNaN
  | JStr string
  | JArr "jsval list"
  | JObj "(string \<times> jsval) list"

text \<open>
  The exceptions the script can meet: a \<^verbatim>\<open>TypeError\<close> from the engine, and the
  \<^verbatim>\<open>SyntaxError\<close> with which \<^verbatim>\<open>querySelector\<close> refuses a selector.
\<close>

datatype js_error = TypeError | SyntaxError

text \<open>Truthiness, as \<^verbatim>\<open>if (v)\<close>, \<^verbatim>\<open>!v\<close>, \<^verbatim>\<open>a || b\<close> and \<^verbatim>\<open>a && b\<close> test it.\<close>

fun truthy :: "jsval \<Rightarrow> bool" where
  "truthy JUndefined = False"
| "truthy JNull = False"
| "truthy (JBool b) = b"
| "truthy (JNum n) = (n \<noteq> 0)"
| "truthy JNaN = False"
| "truthy (JStr s) = (s \<noteq> [])"
| "truthy (JArr xs) = True"
| "truthy (JObj kvs) = True"

definition js_or :: "jsval \<Rightarrow> jsval \<Rightarrow> jsval" where
  "js_or a b = (if truthy a then a else b)"

text \<open>
  Strict equality \<^verbatim>\<open>===\<close>. Arrays and objects are compared by reference; every use
  below has a string literal, a number literal or a DOM attribute on one side, so two
  references never meet and the last equation stands for "different types or different
  allocations".
\<close>

fun strict_eq :: "jsval \<Rightarrow> jsval \<Rightarrow> bool" where
  "strict_eq JUndefined JUndefined = True"
| "strict_eq JNull JNull = True"
| "strict_eq (JBool a) (JBool b) = (a = b)"
| "strict_eq (JNum a) (JNum b) = (a = b)"
| "strict_eq (JStr a) (JStr b) = (a = b)"
| "strict_eq _ _ = False"

text \<open>\<^verbatim>\<open>Set.prototype.has\<close> compares with SameValueZero: strict equality, and NaN equals NaN.\<close>

fun same_value_zero :: "jsval \<Rightarrow> jsval \<Rightarrow> bool" where
  "same_value_zero JNaN JNaN = True"
| "same_value_zero a b = strict_eq a b"

definition set_has :: "jsval list \<Rightarrow> jsval \<Rightarrow> bool" where
  "set_has elems v = list_ex (\<lambda>e. same_value_zero e v) elems"

text \<open>
  \<^verbatim>\<open>new Set(iterable)\<close> reads its argument through the iteration protocol: an array
  gives its elements, a string its characters (none of which is the name of a month),
  anything else is not iterable and the constructor throws.
\<close>

fun iterate :: "jsval \<Rightarrow> js_error + jsval list" where
  "iterate (JArr xs) = Inr xs"
| "iterate (JStr s) = Inr (map (\<lambda>c. JStr [c]) s)"
| "iterate _ = Inl TypeError"

subsection \<open>Conversion to string\<close>

fun show_nat :: "nat \<Rightarrow> string" where
  "show_nat n = (if n < 10 then [''0123456789'' ! n]
                 else show_nat (n div 10) @ [''0123456789'' ! (n mod 10)])"

declare show_nat.simps [simp del]

definition show_int :: "int \<Rightarrow> string" where
  "show_int i = (if i < 0 then ''-'' @ show_nat (nat (- i)) else show_nat (nat i))"

fun join :: "string \<Rightarrow> string list \<Rightarrow> string" where
  "join sep [] = []"
| "join sep [x] = x"
| "join sep (x # y # ys) = x @ sep @ join sep (y # ys)"

text \<open>
  What a template literal \<^verbatim>\<open>${v}\<close> inserts for the value \<open>v\<close>, and the property key
  that \<open>v\<close> stands for. A number of the model is printed in decimal, as JavaScript
  prints every integer below \<open>10\<^sup>2\<^sup>1\<close> in absolute value.
\<close>

fun to_string :: "jsval \<Rightarrow> string" where
  "to_string JUndefined = ''undefined''"
| "to_string JNull = ''null''"
| "to_string (JBool b) = (if b then ''true'' else ''false'')"
| "to_string (JNum n) = show_int (sint n)"
| "to_string JNaN = ''NaN''"
| "to_string (JStr s) = s"
| "to_string (JArr xs) =
     join '','' (map (\<lambda>x. if x = JUndefined \<or> x = JNull then [] else to_string x) xs)"
| "to_string (JObj kvs) = ''[object Object]''"

section \<open>Card renderer: recurrence text and month grid\<close>

text \<open>
  \<^verbatim>\<open>formatRecurrence(recurrence, interval_days)\<close>: the guard on a falsy kind, then the
  \<^verbatim>\<open>switch\<close> (which compares with \<^verbatim>\<open>===\<close>) in the order of its cases; the default
  case returns the argument itself.
\<close>

definition formatRecurrence :: "jsval \<Rightarrow> jsval \<Rightarrow> jsval" where
  "formatRecurrence recurrence interval_days =
     (if \<not> truthy recurrence then JStr ''Non impostata''
      else if strict_eq recurrence (JStr ''giornaliero'') then JStr ''Ogni giorno''
      else if strict_eq recurrence (JStr ''giorni_alterni'') then JStr ''Giorni alterni''
      else if strict_eq recurrence (JStr ''personalizzata'') then
        JStr (''Ogni '' @ to_string (js_or interval_days (JNum 1)) @ '' giorn''
              @ (if strict_eq interval_days (JNum 1) then ''o'' else ''i''))
      else recurrence)"

text \<open>The twelve names of \<^verbatim>\<open>buildMonthsGrid\<close>'s local array \<^verbatim>\<open>months\<close>.\<close>

definition months :: "string list" where
  "months =
     [''Gennaio'', ''Febbraio'', ''Marzo'', ''Aprile'',
      ''Maggio'', ''Giugno'', ''Luglio'', ''Agosto'',
      ''Settembre'', ''Ottobre'', ''Novembre'', ''Dicembre'']"

definition nl :: string where
  "nl = [CHR 0x0A]"

text \<open>The template of one month: its class attribute and the first three letters.\<close>

definition month_tag :: "bool \<Rightarrow> string \<Rightarrow> string" where
  \<open>month_tag isActive month =
     nl @ ''            <div class="month-tag '' @ (if isActive then ''active'' else ''inactive'')
        @ ''">''
     @ nl @ ''                '' @ take 3 month
     @ nl @ ''            </div>''
     @ nl @ ''        ''\<close>

text \<open>
  \<^verbatim>\<open>months.map(month => ...)\<close>, the array of entries before \<^verbatim>\<open>join('')\<close>. The set is
  built from \<^verbatim>\<open>activeMonths || []\<close>.
\<close>

definition buildMonthsGrid_entries :: "jsval \<Rightarrow> js_error + string list" where
  "buildMonthsGrid_entries activeMonths =
     (case iterate (js_or activeMonths (JArr [])) of
        Inl e \<Rightarrow> Inl e
      | Inr activeMonthsSet \<Rightarrow>
          Inr (map (\<lambda>month. month_tag (set_has activeMonthsSet (JStr month)) month) months))"

definition buildMonthsGrid :: "jsval \<Rightarrow> js_error + string" where
  "buildMonthsGrid activeMonths =
     (case buildMonthsGrid_entries activeMonths of
        Inl e \<Rightarrow> Inl e
      | Inr entries \<Rightarrow> Inr (concat entries))"

text \<open>The month lists the claim speaks of: an array, \<^verbatim>\<open>null\<close> or \<^verbatim>\<open>undefined\<close>.\<close>

fun month_list :: "jsval \<Rightarrow> jsval list option" where
  "month_list (JArr xs) = Some xs"
| "month_list JNull = Some []"
| "month_list JUndefined = Some []"
| "month_list _ = None"


text \<open>
  Reading a decimal numeral, the inverse of \<open>show_nat\<close>: it serves to say what the
  printed count is without reference to the printer.
\<close>

definition read_nat :: "string \<Rightarrow> nat" where
  "read_nat s = foldl (\<lambda>a c. 10 * a + (of_char c - 48)) 0 s"

section \<open>Property access\<close>

text \<open>
  \<^verbatim>\<open>v.k\<close> for the property names this file reads: a \<^verbatim>\<open>TypeError\<close> on \<^verbatim>\<open>null\<close> and
  \<^verbatim>\<open>undefined\<close>, the own property of an object, \<^verbatim>\<open>length\<close> of an array or a string,
  and \<^verbatim>\<open>undefined\<close> in every other case (none of the names is inherited from a
  prototype). No array or string of JavaScript is longer than \<open>2\<^sup>5\<^sup>3 - 1\<close>, where
  \<open>js_length\<close> stops.
\<close>

definition js_length :: "nat \<Rightarrow> jsval" where
  "js_length n = JNum (if int n < 9007199254740992 then of_nat n else 9007199254740991)"

fun get_prop :: "jsval \<Rightarrow> string \<Rightarrow> js_error + jsval" where
  "get_prop JUndefined k = Inl TypeError"
| "get_prop JNull k = Inl TypeError"
| "get_prop (JObj kvs) k = Inr (case map_of kvs k of Some v \<Rightarrow> v | None \<Rightarrow> JUndefined)"
| "get_prop (JArr xs) k = Inr (if k = ''length'' then js_length (length xs) else JUndefined)"
| "get_prop (JStr s) k = Inr (if k = ''length'' then js_length (length s) else JUndefined)"
| "get_prop _ k = Inr JUndefined"

text \<open>Sequencing of computations that may throw.\<close>

definition bind_e :: "js_error + 'a \<Rightarrow> ('a \<Rightarrow> js_error + 'b) \<Rightarrow> js_error + 'b" where
  "bind_e m f = (case m of Inl e \<Rightarrow> Inl e | Inr x \<Rightarrow> f x)"

definition js_and :: "jsval \<Rightarrow> jsval \<Rightarrow> jsval" where
  "js_and a b = (if truthy a then b else a)"

text \<open>\<^verbatim>\<open>typeof v === 'object'\<close>, which holds of \<^verbatim>\<open>null\<close> too.\<close>

fun typeof_object :: "jsval \<Rightarrow> bool" where
  "typeof_object JNull = True"
| "typeof_object (JArr xs) = True"
| "typeof_object (JObj kvs) = True"
| "typeof_object _ = False"

text \<open>
  \<^verbatim>\<open>Object.keys(v)\<close> paired with \<^verbatim>\<open>v[key]\<close>: the properties of an object (distinct
  keys, as \<^verbatim>\<open>JSON.parse\<close> builds them), the indices of an array or of a string.
\<close>

fun own_entries :: "jsval \<Rightarrow> (string \<times> jsval) list" where
  "own_entries (JObj kvs) = kvs"
| "own_entries (JArr xs) = zip (map show_nat [0..<length xs]) xs"
| "own_entries (JStr s) = zip (map show_nat [0..<length s]) (map (\<lambda>c. JStr [c]) s)"
| "own_entries _ = []"

text \<open>
  \<^verbatim>\<open>v.k = x\<close> in sloppy mode: an object takes the property (a new one is enumerated
  last), a primitive ignores the assignment. An array would take it too; nothing in
  this file reads a named property of an array back, and the model leaves the array as
  it is.
\<close>

fun set_prop :: "jsval \<Rightarrow> string \<Rightarrow> jsval \<Rightarrow> jsval" where
  "set_prop (JObj kvs) k x =
     JObj (if k \<in> set (map fst kvs) then map (\<lambda>(k', v). if k' = k then (k', x) else (k', v)) kvs
           else kvs @ [(k, x)])"
| "set_prop v k x = v"

text \<open>The object after its entries were visited and possibly changed in place.\<close>

fun with_entries :: "jsval \<Rightarrow> (string \<times> jsval) list \<Rightarrow> jsval" where
  "with_entries (JObj kvs) es = JObj es"
| "with_entries (JArr xs) es = JArr (map snd es)"
| "with_entries v es = v"

section \<open>The page\<close>

text \<open>
  The DOM is modelled by the elements the script reads or writes. A button has the class
  \<^verbatim>\<open>disabled\<close> and the property \<^verbatim>\<open>disabled\<close>, which the script always sets together
  but which are two things.
\<close>

record button =
  cls_disabled :: bool
  disabled :: bool

record auto_icon =
  icon_id :: string
  icon_class :: string
  icon_span :: "string option"

record auto_switch =
  switch_id :: string
  checked :: bool

text \<open>
  The zones grid of a card: the tag that says that no zone is configured, or one entry
  per step, which is nothing for a step that is skipped and otherwise the zone identifier
  and the duration shown (\<^verbatim>\<open>step.duration || 0\<close>). The name shown for a zone is not part
  of the model: the script takes it from its \<^verbatim>\<open>zoneNameMap\<close>, an object whose lookups
  also reach the members of \<^verbatim>\<open>Object.prototype\<close>, or builds it with \<^verbatim>\<open>zone_id + 1\<close>.
\<close>

datatype zones =
    NoZones
  | ZoneTags "(jsval \<times> jsval) option list"

text \<open>
  A program card. \<open>uid\<close> is the identity of the element: a handler that captured a
  button before a request acts on that element when the response arrives, also when
  the container was rendered again in between (the element is then detached and the
  page does not show the change). \<open>data_program_id\<close> is the attribute
  \<^verbatim>\<open>data-program-id\<close>, \<open>active_program\<close> the class \<^verbatim>\<open>active-program\<close>, \<open>program_header\<close>
  whether the card has a \<^verbatim>\<open>.program-header\<close>, \<open>active_indicators\<close> the number of
  \<^verbatim>\<open>.active-indicator\<close> elements in the card. The texts interpolated into the card's
  template are kept as texts.
\<close>

record card =
  uid :: nat
  data_program_id :: "string option"
  active_program :: bool
  program_header :: bool
  title :: string
  active_indicators :: nat
  orario :: string
  cadenza :: string
  ultima_esecuzione :: string
  months_grid :: string
  zones_grid :: zones
  auto_icon :: "auto_icon option"
  auto_switch :: "auto_switch option"
  btn_start :: "button option"
  btn_stop :: "button option"
  btn_delete :: "button option"

text \<open>
  What a promise is rejected with: an \<^verbatim>\<open>Error\<close> whose message is known, or an exception
  thrown by the engine, whose message is the engine's.
\<close>

datatype rejection =
    Error string
  | Thrown js_error

text \<open>
  The children of \<^verbatim>\<open>#programs-container\<close>: the loading indicator, the empty state
  with its button to create a program, the error state with the message of what was
  caught and its retry button, or a program card.
\<close>

datatype node =
    Loading
  | EmptyState
  | ErrorState rejection
  | Card card

text \<open>
  The module's variables (\<open>programStatusInterval\<close>, \<open>programsData\<close>,
  \<open>globalAutomationEnabled\<close>; \<^verbatim>\<open>zoneNameMap\<close> stays outside with the zone names, which
  alone depend on it) and the parts of the browser the script acts on:
  the \<^verbatim>\<open>.auto-status\<close> children of \<^verbatim>\<open>.page-title\<close> (\<open>True\<close> for the class \<^verbatim>\<open>on\<close>;
  \<open>None\<close> when the page has no such title), the children of the container (\<open>None\<close>
  when the page has no \<^verbatim>\<open>#programs-container\<close>), the running \<^verbatim>\<open>setInterval\<close> timers
  with handle and period in milliseconds (each calls \<^verbatim>\<open>fetchProgramState\<close>), whether the
  \<^verbatim>\<open>pagehide\<close> listener is registered, whether a function \<^verbatim>\<open>showToast\<close> exists, and the
  toasts shown through it (message and kind).
\<close>

record page =
  programStatusInterval :: "nat option"
  programsData :: jsval
  globalAutomationEnabled :: jsval
  page_title :: "bool list option"
  container :: "node list option"
  next_uid :: nat
  intervals :: "(nat \<times> nat) list"
  next_handle :: nat
  pagehide_listener :: bool
  showToast_defined :: bool
  toasts :: "(string \<times> string) list"

definition showToast :: "string \<Rightarrow> string \<Rightarrow> page \<Rightarrow> page" where
  "showToast message kind pg =
     (if showToast_defined pg then pg\<lparr>toasts := toasts pg @ [(message, kind)]\<rparr> else pg)"

fun map_cards :: "(card \<Rightarrow> card) \<Rightarrow> page \<Rightarrow> page" where
  "map_cards f pg =
     pg\<lparr>container :=
          map_option (map (\<lambda>n. case n of Card c \<Rightarrow> Card (f c) | _ \<Rightarrow> n)) (container pg)\<rparr>"

fun cards_of :: "page \<Rightarrow> card list" where
  "cards_of pg =
     (case container pg of
        None \<Rightarrow> []
      | Some ns \<Rightarrow> concat (map (\<lambda>n. case n of Card c \<Rightarrow> [c] | _ \<Rightarrow> []) ns))"

section \<open>State poller: the update of the cards\<close>

text \<open>\<^verbatim>\<open>card.getAttribute('data-program-id')\<close>: the string, or \<^verbatim>\<open>null\<close>.\<close>

definition getAttribute_program_id :: "card \<Rightarrow> jsval" where
  "getAttribute_program_id c = (case data_program_id c of None \<Rightarrow> JNull | Some s \<Rightarrow> JStr s)"

text \<open>The value of \<^verbatim>\<open>isActive\<close> in the callback of \<^verbatim>\<open>updateProgramsUI\<close>.\<close>

definition card_isActive :: "jsval \<Rightarrow> jsval \<Rightarrow> card \<Rightarrow> jsval" where
  "card_isActive currentProgramId programRunning c =
     js_and programRunning (JBool (strict_eq (getAttribute_program_id c) currentProgramId))"

text \<open>The first half of the callback: the class and the indicator.\<close>

definition update_card_class :: "jsval \<Rightarrow> card \<Rightarrow> card" where
  "update_card_class isActive c =
     (if truthy isActive then
        (let c1 = c\<lparr>active_program := True\<rparr>
         in if active_indicators c1 = 0 then
              (if program_header c1 then c1\<lparr>active_indicators := 1\<rparr> else c1)
            else c1)
      else
        (let c1 = c\<lparr>active_program := False\<rparr>
         in if 0 < active_indicators c1
            then c1\<lparr>active_indicators := active_indicators c1 - 1\<rparr> else c1))"

text \<open>The second half: the buttons, only when the card has both.\<close>

definition update_card_buttons :: "jsval \<Rightarrow> jsval \<Rightarrow> card \<Rightarrow> card" where
  "update_card_buttons isActive programRunning c =
     (case (btn_start c, btn_stop c) of
        (Some startBtn, Some stopBtn) \<Rightarrow>
          (if truthy isActive then
             c\<lparr>btn_start := Some (startBtn\<lparr>cls_disabled := True, disabled := True\<rparr>),
               btn_stop := Some (stopBtn\<lparr>cls_disabled := False, disabled := False\<rparr>)\<rparr>
           else if truthy programRunning then
             c\<lparr>btn_start := Some (startBtn\<lparr>cls_disabled := True, disabled := True\<rparr>),
               btn_stop := Some (stopBtn\<lparr>cls_disabled := True, disabled := True\<rparr>)\<rparr>
           else
             c\<lparr>btn_start := Some (startBtn\<lparr>cls_disabled := False, disabled := False\<rparr>),
               btn_stop := Some (stopBtn\<lparr>cls_disabled := True, disabled := True\<rparr>)\<rparr>)
      | _ \<Rightarrow> c)"

definition update_card :: "jsval \<Rightarrow> jsval \<Rightarrow> card \<Rightarrow> card" where
  "update_card currentProgramId programRunning c =
     (let isActive = card_isActive currentProgramId programRunning c
      in update_card_buttons isActive programRunning (update_card_class isActive c))"

text \<open>
  \<^verbatim>\<open>updateProgramsUI(state)\<close>: reads the two properties, then visits every
  \<^verbatim>\<open>.program-card\<close> of the document.
\<close>

definition updateProgramsUI :: "jsval \<Rightarrow> page \<Rightarrow> js_error + page" where
  "updateProgramsUI state pg =
     bind_e (get_prop state ''current_program_id'') (\<lambda>currentProgramId.
     bind_e (get_prop state ''program_running'') (\<lambda>programRunning.
       Inr (map_cards (update_card currentProgramId programRunning) pg)))"

section \<open>Card renderer: zones and cards\<close>

text \<open>
  \<^verbatim>\<open>buildZonesGrid(steps)\<close>, without the names of the zones. A step that is falsy or
  has no \<^verbatim>\<open>zone_id\<close> gives nothing. Only an array has \<^verbatim>\<open>map\<close>: on anything else that
  is truthy and whose \<^verbatim>\<open>length\<close> is not 0 the call throws.
\<close>

definition zone_tag :: "jsval \<Rightarrow> js_error + (jsval \<times> jsval) option" where
  "zone_tag step =
     (if \<not> truthy step then Inr None
      else
        bind_e (get_prop step ''zone_id'') (\<lambda>zone_id.
          if strict_eq zone_id JUndefined then Inr None
          else
            bind_e (get_prop step ''duration'') (\<lambda>duration.
              Inr (Some (zone_id, js_or duration (JNum 0))))))"

fun map_e :: "('a \<Rightarrow> js_error + 'b) \<Rightarrow> 'a list \<Rightarrow> js_error + 'b list" where
  "map_e f [] = Inr []"
| "map_e f (x # xs) =
     bind_e (f x) (\<lambda>y. bind_e (map_e f xs) (\<lambda>ys. Inr (y # ys)))"

definition buildZonesGrid :: "jsval \<Rightarrow> js_error + zones" where
  "buildZonesGrid steps =
     (if \<not> truthy steps then Inr NoZones
      else
        bind_e (get_prop steps ''length'') (\<lambda>len.
          if strict_eq len (JNum 0) then Inr NoZones
          else (case steps of
                  JArr xs \<Rightarrow> bind_e (map_e zone_tag xs) (\<lambda>tags. Inr (ZoneTags tags))
                | _ \<Rightarrow> Inl TypeError)))"

text \<open>
  The value of \<^verbatim>\<open>isActive\<close> in \<^verbatim>\<open>renderProgramCards\<close>:
  \<^verbatim>\<open>state.program_running && state.current_program_id === String(programId)\<close>. The second
  property is read only when the first is truthy; \<open>programId\<close> is a key and already a
  string.
\<close>

definition render_isActive :: "jsval \<Rightarrow> string \<Rightarrow> js_error + jsval" where
  "render_isActive state programId =
     bind_e (get_prop state ''program_running'') (\<lambda>running.
       if truthy running then
         bind_e (get_prop state ''current_program_id'') (\<lambda>cur.
           Inr (JBool (strict_eq cur (JStr programId))))
       else Inr running)"

text \<open>
  The body of the \<^verbatim>\<open>forEach\<close> callback from \<^verbatim>\<open>isActive\<close> on, for a truthy program: the
  element it creates, with identity \<open>u\<close>, or the exception that leaves the callback.
  The edit button, which nothing reads or writes afterwards, is left out.
\<close>

definition render_card :: "nat \<Rightarrow> jsval \<Rightarrow> string \<Rightarrow> jsval \<Rightarrow> js_error + card" where
  "render_card u state programId program =
     bind_e (render_isActive state programId) (\<lambda>isActive.
     bind_e (get_prop program ''months'') (\<lambda>p_months.
     bind_e (buildMonthsGrid (js_or p_months (JArr []))) (\<lambda>monthsHtml.
     bind_e (get_prop program ''steps'') (\<lambda>p_steps.
     bind_e (buildZonesGrid (js_or p_steps (JArr []))) (\<lambda>zonesHtml.
     bind_e (get_prop program ''automatic_enabled'') (\<lambda>p_automatic.
     bind_e (get_prop program ''name'') (\<lambda>p_name.
     bind_e (get_prop program ''activation_time'') (\<lambda>p_time.
     bind_e (get_prop program ''recurrence'') (\<lambda>p_recurrence.
     bind_e (get_prop program ''interval_days'') (\<lambda>p_interval.
     bind_e (get_prop program ''last_run_date'') (\<lambda>p_last.
       let isAutomatic = \<not> strict_eq p_automatic (JBool False)
       in Inr \<lparr>uid = u,
                data_program_id = Some programId,
                active_program = truthy isActive,
                program_header = True,
                title = to_string (js_or p_name (JStr ''Programma senza nome'')),
                active_indicators = (if truthy isActive then 1 else 0),
                orario = to_string (js_or p_time (JStr ''Non impostato'')),
                cadenza = to_string (formatRecurrence p_recurrence p_interval),
                ultima_esecuzione = to_string (js_or p_last (JStr ''Mai eseguito'')),
                months_grid = monthsHtml,
                zones_grid = zonesHtml,
                auto_icon = Some \<lparr>icon_id = ''auto-icon-'' @ programId,
                                   icon_class = ''auto-status '' @ (if isAutomatic then ''on'' else ''off''),
                                   icon_span = Some (''Attivazione automatica: ''
                                                     @ (if isAutomatic then ''ON'' else ''OFF''))\<rparr>,
                auto_switch = Some \<lparr>switch_id = ''auto-switch-'' @ programId,
                                     checked = isAutomatic\<rparr>,
                btn_start = Some \<lparr>cls_disabled = truthy isActive, disabled = truthy isActive\<rparr>,
                btn_stop = Some \<lparr>cls_disabled = \<not> truthy isActive,
                                  disabled = \<not> truthy isActive\<rparr>,
                btn_delete = Some \<lparr>cls_disabled = False, disabled = False\<rparr>\<rparr>)))))))))))"

text \<open>
  The \<^verbatim>\<open>forEach\<close> over the program identifiers: a falsy program is skipped; a program
  without \<^verbatim>\<open>id\<close> receives its key as \<^verbatim>\<open>id\<close>; an exception ends the loop and keeps
  what was done before it. The result is the exception if any, the entries of
  \<open>programs\<close> as the loop left them, and the cards appended to the container.
\<close>

fun render_cards ::
  "jsval \<Rightarrow> nat \<Rightarrow> (string \<times> jsval) list
     \<Rightarrow> js_error option \<times> (string \<times> jsval) list \<times> card list" where
  "render_cards state u [] = (None, [], [])"
| "render_cards state u ((programId, program) # rest) =
     (if \<not> truthy program then
        (case render_cards state u rest of
           (e, ps, cs) \<Rightarrow> (e, (programId, program) # ps, cs))
      else
        (let program1 = (if get_prop program ''id'' = Inr JUndefined
                         then set_prop program ''id'' (JStr programId) else program)
         in case render_card u state programId program1 of
              Inl e \<Rightarrow> (Some e, (programId, program1) # rest, [])
            | Inr c \<Rightarrow>
                (case render_cards state (Suc u) rest of
                   (e, ps, cs) \<Rightarrow> (e, (programId, program1) # ps, c # cs))))"

text \<open>
  \<^verbatim>\<open>renderProgramCards(programs, state)\<close>: nothing without a container; the empty state
  without programs; otherwise the container is emptied and filled by the loop. The
  result carries \<open>programs\<close> as the loop left the object.
\<close>

definition renderProgramCards ::
  "jsval \<Rightarrow> jsval \<Rightarrow> page \<Rightarrow> js_error option \<times> jsval \<times> page" where
  "renderProgramCards programs state pg =
     (case container pg of
        None \<Rightarrow> (None, programs, pg)
      | Some old \<Rightarrow>
          (let entries = (if truthy programs then own_entries programs else [])
           in if \<not> truthy programs \<or> length entries = 0 then
                (None, programs, pg\<lparr>container := Some [EmptyState]\<rparr>)
              else
                (case render_cards state (next_uid pg) entries of
                   (e, ps, cs) \<Rightarrow>
                     (e, with_entries programs ps,
                      pg\<lparr>container := Some (map Card cs),
                         next_uid := next_uid pg + length cs\<rparr>))))"

section \<open>Requests and responses\<close>

text \<open>
  A request the script issues through \<^verbatim>\<open>fetch\<close>: the URL, and for a POST the value
  that \<^verbatim>\<open>JSON.stringify\<close> serialises into the body (\<open>None\<close> when no body is sent).
  What comes back is a network failure with the message of its error, or a response
  with its \<^verbatim>\<open>ok\<close> flag and what \<^verbatim>\<open>response.json()\<close> yields: the parsed value, or
  the message of the error it rejects with.
\<close>

datatype request =
    GET string
  | POST string "jsval option"

datatype response =
    NetworkError string
  | Response bool "string + jsval"

text \<open>
  \<^verbatim>\<open>fetch(url).then(response => response.json())\<close>, the chain of the action
  dispatchers: the status is not looked at.
\<close>

fun json_of :: "response \<Rightarrow> rejection + jsval" where
  "json_of (NetworkError m) = Inl (Error m)"
| "json_of (Response ok (Inl m)) = Inl (Error m)"
| "json_of (Response ok (Inr v)) = Inr v"

text \<open>
  \<^verbatim>\<open>fetch(url).then(response => { if (!response.ok) throw new Error(msg);
  return response.json(); })\<close>, the chain of the loader and of the poller.
\<close>

fun checked_json_of :: "string \<Rightarrow> response \<Rightarrow> rejection + jsval" where
  "checked_json_of msg (NetworkError m) = Inl (Error m)"
| "checked_json_of msg (Response ok body) =
     (if \<not> ok then Inl (Error msg) else json_of (Response ok body))"

section \<open>State poller\<close>

text \<open>
  \<^verbatim>\<open>fetchProgramState()\<close> issues one request; \<open>fetchProgramState_response\<close> is what its
  handlers do with the response. An unsuccessful status, a body that is not JSON and a
  value that is not an object leave the page as it is (the script only logs; the
  message of the error it throws, which names the status, goes nowhere else).
\<close>

definition fetchProgramState :: "page \<Rightarrow> request list \<times> page" where
  "fetchProgramState pg = ([GET ''/get_program_state''], pg)"

definition fetchProgramState_response :: "response \<Rightarrow> page \<Rightarrow> page" where
  "fetchProgramState_response resp pg =
     (case checked_json_of ''Errore HTTP'' resp of
        Inl r \<Rightarrow> pg
      | Inr state \<Rightarrow>
          (if truthy state \<and> typeof_object state then
             (case updateProgramsUI state pg of Inl e \<Rightarrow> pg | Inr pg' \<Rightarrow> pg')
           else pg))"

text \<open>
  \<^verbatim>\<open>startProgramStatusPolling()\<close>: the immediate fetch, then \<^verbatim>\<open>setInterval\<close> with
  5000 ms, whose fresh handle is stored.
\<close>

definition startProgramStatusPolling :: "page \<Rightarrow> request list \<times> page" where
  "startProgramStatusPolling pg =
     (case fetchProgramState pg of
        (reqs, pg1) \<Rightarrow>
          (reqs, pg1\<lparr>programStatusInterval := Some (next_handle pg1),
                     intervals := intervals pg1 @ [(next_handle pg1, 5000)],
                     next_handle := Suc (next_handle pg1)\<rparr>))"

text \<open>
  \<^verbatim>\<open>stopProgramStatusPolling()\<close>: a truthy handle is cleared and forgotten.
  \<^verbatim>\<open>cleanupViewProgramsPage\<close>, the \<^verbatim>\<open>pagehide\<close> listener, does nothing else.
\<close>

definition stopProgramStatusPolling :: "page \<Rightarrow> page" where
  "stopProgramStatusPolling pg =
     (case programStatusInterval pg of
        None \<Rightarrow> pg
      | Some h \<Rightarrow>
          (if h \<noteq> 0 then
             pg\<lparr>intervals := filter (\<lambda>(h', period). h' \<noteq> h) (intervals pg),
                programStatusInterval := None\<rparr>
           else pg))"

definition cleanupViewProgramsPage :: "page \<Rightarrow> page" where
  "cleanupViewProgramsPage pg = stopProgramStatusPolling pg"

section \<open>Data loader\<close>

text \<open>
  \<^verbatim>\<open>addGlobalAutomationStatus(enabled)\<close>: the variable is set; in a page with a title
  the first indicator there is removed and the new one appended.
\<close>

definition addGlobalAutomationStatus :: "jsval \<Rightarrow> page \<Rightarrow> page" where
  "addGlobalAutomationStatus enabled pg =
     (let pg1 = pg\<lparr>globalAutomationEnabled := enabled\<rparr>
      in case page_title pg1 of
           None \<Rightarrow> pg1
         | Some statuses \<Rightarrow>
             pg1\<lparr>page_title := Some ((case statuses of [] \<Rightarrow> [] | s # rest \<Rightarrow> rest)
                                      @ [truthy enabled])\<rparr>)"

text \<open>
  The synchronous part of \<^verbatim>\<open>loadUserSettingsAndPrograms()\<close>: the loading indicator,
  and the three requests, all issued before any of them is answered.
\<close>

definition loadUserSettingsAndPrograms :: "page \<Rightarrow> request list \<times> page" where
  "loadUserSettingsAndPrograms pg =
     ([GET ''/data/user_settings.json'', GET ''/data/program.json'', GET ''/get_program_state''],
      (case container pg of None \<Rightarrow> pg | Some old \<Rightarrow> pg\<lparr>container := Some [Loading]\<rparr>))"

text \<open>
  \<^verbatim>\<open>Promise.all\<close> over the three chains. The argument lists the responses that have
  arrived, in the order of arrival, each with the position of its request (0, 1, 2). The
  first rejection to arrive rejects the whole; three values fulfil it; until then it is
  pending.
\<close>

datatype 'a promise =
    Pending
  | Fulfilled 'a
  | Rejected rejection

definition load_message :: "nat \<Rightarrow> string" where
  "load_message i =
     (if i = 0 then ''Errore nel caricamento delle impostazioni utente''
      else if i = 1 then ''Errore nel caricamento dei programmi''
      else ''Errore nel caricamento dello stato del programma'')"

fun first_rejection :: "(nat \<times> response) list \<Rightarrow> rejection option" where
  "first_rejection [] = None"
| "first_rejection ((i, resp) # rest) =
     (case checked_json_of (load_message i) resp of
        Inl r \<Rightarrow> Some r
      | Inr v \<Rightarrow> first_rejection rest)"

definition value_at :: "(nat \<times> response) list \<Rightarrow> nat \<Rightarrow> jsval option" where
  "value_at arrived i =
     (case map_of arrived i of
        None \<Rightarrow> None
      | Some resp \<Rightarrow>
          (case checked_json_of (load_message i) resp of Inl r \<Rightarrow> None | Inr v \<Rightarrow> Some v))"

definition promise_all :: "(nat \<times> response) list \<Rightarrow> (jsval \<times> jsval \<times> jsval) promise" where
  "promise_all arrived =
     (case first_rejection arrived of
        Some r \<Rightarrow> Rejected r
      | None \<Rightarrow>
          (case (value_at arrived 0, value_at arrived 1, value_at arrived 2) of
             (Some settings, Some programs, Some state) \<Rightarrow> Fulfilled (settings, programs, state)
           | _ \<Rightarrow> Pending))"

text \<open>
  The fulfilment handler. It may throw, at the first property read of \<open>settings\<close> or
  inside the renderer; what it did before stays done. Between the automation status
  and the programs the script fills its \<^verbatim>\<open>zoneNameMap\<close> from \<^verbatim>\<open>settings.zones\<close>, which
  throws nothing and, like the zone names, is not modelled.
\<close>

definition load_then :: "jsval \<Rightarrow> jsval \<Rightarrow> jsval \<Rightarrow> page \<Rightarrow> js_error option \<times> page" where
  "load_then settings programs state pg =
     (case get_prop settings ''automatic_programs_enabled'' of
        Inl e \<Rightarrow> (Some e, pg)
      | Inr enabled \<Rightarrow>
          (let pg1 = addGlobalAutomationStatus (js_or enabled (JBool False)) pg;
               pg3 = pg1\<lparr>programsData := js_or programs (JObj [])\<rparr>
           in case renderProgramCards (programsData pg3) state pg3 of
                (e, ps, pg4) \<Rightarrow> (e, pg4\<lparr>programsData := ps\<rparr>)))"

text \<open>The rejection handler: the toast, and the error state with its retry button.\<close>

definition load_catch :: "rejection \<Rightarrow> page \<Rightarrow> page" where
  "load_catch r pg =
     (let pg1 = showToast ''Errore nel caricamento dei dati'' ''error'' pg
      in case container pg1 of
           None \<Rightarrow> pg1
         | Some old \<Rightarrow> pg1\<lparr>container := Some [ErrorState r]\<rparr>)"

definition loadUserSettingsAndPrograms_response :: "(nat \<times> response) list \<Rightarrow> page \<Rightarrow> page" where
  "loadUserSettingsAndPrograms_response arrived pg =
     (case promise_all arrived of
        Pending \<Rightarrow> pg
      | Rejected r \<Rightarrow> load_catch r pg
      | Fulfilled (settings, programs, state) \<Rightarrow>
          (case load_then settings programs state pg of
             (None, pg1) \<Rightarrow> pg1
           | (Some e, pg1) \<Rightarrow> load_catch (Thrown e) pg1))"

section \<open>Page life cycle\<close>

text \<open>
  \<^verbatim>\<open>initializeViewProgramsPage()\<close>: the load, the poller, the \<^verbatim>\<open>pagehide\<close> listener
  (registering the same function again changes nothing). The function also publishes
  \<^verbatim>\<open>fetchProgramState\<close> on \<^verbatim>\<open>window\<close>, which nothing in this file reads.
\<close>

definition initializeViewProgramsPage :: "page \<Rightarrow> request list \<times> page" where
  "initializeViewProgramsPage pg =
     (case loadUserSettingsAndPrograms pg of
        (reqs1, pg1) \<Rightarrow>
          (case startProgramStatusPolling pg1 of
             (reqs2, pg2) \<Rightarrow> (reqs1 @ reqs2, pg2\<lparr>pagehide_listener := True\<rparr>)))"


section \<open>Action dispatchers\<close>

text \<open>
  Each dispatcher is a pair: what the function does when it is called (the requests it
  issues, the elements it captures, the page it leaves), and what its handlers do when
  the response arrives.
  \<^verbatim>\<open>editProgram\<close> and \<^verbatim>\<open>toggleGlobalAutomation\<close>, which leave the cards and the timers
  alone, are not part of this development.
\<close>

text \<open>
  An element that a dispatcher holds in a variable: the start, stop or delete button
  of the card with the given \<open>uid\<close>, or an element whose class and \<^verbatim>\<open>disabled\<close>
  property the page model does not keep (a card, a header, a switch).
\<close>

datatype target =
    StartButton nat
  | StopButton nat
  | DeleteButton nat
  | OtherElement

text \<open>
  \<^verbatim>\<open>el.classList.add('disabled'); el.disabled = true\<close> for \<open>v = True\<close>, and
  \<^verbatim>\<open>el.classList.remove('disabled'); el.disabled = false\<close> for \<open>v = False\<close>.
\<close>

definition set_disabled :: "target \<Rightarrow> bool \<Rightarrow> page \<Rightarrow> page" where
  "set_disabled el v pg =
     (case el of
        StartButton u \<Rightarrow>
          map_cards (\<lambda>c. if uid c = u
                         then c\<lparr>btn_start :=
                                 map_option (\<lambda>b. b\<lparr>cls_disabled := v, disabled := v\<rparr>) (btn_start c)\<rparr>
                         else c) pg
      | StopButton u \<Rightarrow>
          map_cards (\<lambda>c. if uid c = u
                         then c\<lparr>btn_stop :=
                                 map_option (\<lambda>b. b\<lparr>cls_disabled := v, disabled := v\<rparr>) (btn_stop c)\<rparr>
                         else c) pg
      | DeleteButton u \<Rightarrow>
          map_cards (\<lambda>c. if uid c = u
                         then c\<lparr>btn_delete :=
                                 map_option (\<lambda>b. b\<lparr>cls_disabled := v, disabled := v\<rparr>) (btn_delete c)\<rparr>
                         else c) pg
      | OtherElement \<Rightarrow> pg)"

text \<open>\<^verbatim>\<open>if (startBtn) { ... }\<close>: nothing when the query found no element.\<close>

definition on_held :: "target option \<Rightarrow> bool \<Rightarrow> page \<Rightarrow> page" where
  "on_held startBtn v pg = (case startBtn of None \<Rightarrow> pg | Some el \<Rightarrow> set_disabled el v pg)"

text \<open>
  \<^verbatim>\<open>document.querySelector('.program-card[data-program-id="ID"] .btn-start')\<close>, where
  the identifier is pasted between the double quotes of the selector. An identifier
  without a double quote, a backslash, a line feed, a carriage return, a form feed or
  a NUL stands for itself there, and the query returns the first start button, in
  document order, inside a card with that attribute. With one of these characters the
  selector is another one; what the selector engine then answers (a \<^verbatim>\<open>SyntaxError\<close>,
  no element, or some element) is taken as given, in \<open>beyond\<close>.
\<close>

definition needs_no_escape :: "string \<Rightarrow> bool" where
  "needs_no_escape s =
     list_all (\<lambda>c. c \<notin> set [CHR 0x22, CHR 0x5C, CHR 0x0A, CHR 0x0D, CHR 0x0C, CHR 0x00]) s"

fun find_start_btn :: "string \<Rightarrow> card list \<Rightarrow> nat option" where
  "find_start_btn programId [] = None"
| "find_start_btn programId (c # cs) =
     (if data_program_id c = Some programId \<and> btn_start c \<noteq> None then Some (uid c)
      else find_start_btn programId cs)"

definition querySelector_start_btn ::
  "string \<Rightarrow> js_error + target option \<Rightarrow> card list \<Rightarrow> js_error + target option" where
  "querySelector_start_btn programId beyond cs =
     (if needs_no_escape programId then Inr (map_option StartButton (find_start_btn programId cs))
      else beyond)"

text \<open>
  \<^verbatim>\<open>startProgram(programId)\<close>: the query, which may throw before anything else is
  done; the button it found is disabled; the request is issued.
\<close>

definition startProgram ::
  "string \<Rightarrow> js_error + target option \<Rightarrow> page
     \<Rightarrow> js_error + request list \<times> target option \<times> page" where
  "startProgram programId beyond pg =
     (case querySelector_start_btn programId beyond (cards_of pg) of
        Inl e \<Rightarrow> Inl e
      | Inr startBtn \<Rightarrow>
          Inr ([POST ''/start_program'' (Some (JObj [(''program_id'', JStr programId)]))],
               startBtn,
               on_held startBtn True pg))"

definition error_text :: "jsval \<Rightarrow> string" where
  "error_text data =
     (case get_prop data ''error'' of
        Inl e \<Rightarrow> ''Errore sconosciuto''
      | Inr err \<Rightarrow> to_string (js_or err (JStr ''Errore sconosciuto'')))"

text \<open>
  A response that does not report success: the request failed, the body is not JSON,
  or the \<^verbatim>\<open>success\<close> of the value is falsy, absent or cannot be read.
\<close>

definition unsuccessful :: "response \<Rightarrow> bool" where
  "unsuccessful resp =
     (case json_of resp of
        Inl r \<Rightarrow> True
      | Inr data \<Rightarrow>
          (case get_prop data ''success'' of Inl e \<Rightarrow> True | Inr success \<Rightarrow> \<not> truthy success))"

text \<open>
  The handlers of \<^verbatim>\<open>startProgram\<close>. The rejection handler also catches the
  \<^verbatim>\<open>TypeError\<close> of \<^verbatim>\<open>data.success\<close> on \<^verbatim>\<open>null\<close>.
\<close>

definition startProgram_response ::
  "target option \<Rightarrow> response \<Rightarrow> page \<Rightarrow> request list \<times> page" where
  "startProgram_response startBtn resp pg =
     (let caught = ([], on_held startBtn False
                          (showToast ''Errore di rete durante l'avvio del programma'' ''error'' pg))
      in case json_of resp of
           Inl r \<Rightarrow> caught
         | Inr data \<Rightarrow>
             (case get_prop data ''success'' of
                Inl e \<Rightarrow> caught
              | Inr success \<Rightarrow>
                  (if truthy success then
                     fetchProgramState (showToast ''Programma avviato con successo'' ''success'' pg)
                   else
                     ([], on_held startBtn False
                            (showToast (''Errore nell'avvio del programma: '' @ error_text data)
                               ''error'' pg)))))"

text \<open>
  \<^verbatim>\<open>document.querySelectorAll('.btn-stop')\<close>: the stop buttons of all cards, held by
  the \<open>uid\<close>s of their cards. \<open>on_stop_btns\<close> is the \<^verbatim>\<open>forEach\<close> over them that adds or
  removes the class and sets the property.
\<close>

definition on_stop_btns :: "nat list \<Rightarrow> bool \<Rightarrow> page \<Rightarrow> page" where
  "on_stop_btns stopBtns v pg =
     map_cards (\<lambda>c. if uid c \<in> set stopBtns
                    then c\<lparr>btn_stop :=
                            map_option (\<lambda>b. b\<lparr>cls_disabled := v, disabled := v\<rparr>) (btn_stop c)\<rparr>
                    else c)
       pg"

definition stopProgram :: "page \<Rightarrow> request list \<times> nat list \<times> page" where
  "stopProgram pg =
     (let stopBtns = map uid (filter (\<lambda>c. btn_stop c \<noteq> None) (cards_of pg))
      in ([POST ''/stop_program'' None], stopBtns, on_stop_btns stopBtns True pg))"

definition stopProgram_response :: "nat list \<Rightarrow> response \<Rightarrow> page \<Rightarrow> request list \<times> page" where
  "stopProgram_response stopBtns resp pg =
     (let caught = ([], on_stop_btns stopBtns False
                          (showToast ''Errore di rete durante l'arresto del programma'' ''error'' pg))
      in case json_of resp of
           Inl r \<Rightarrow> caught
         | Inr data \<Rightarrow>
             (case get_prop data ''success'' of
                Inl e \<Rightarrow> caught
              | Inr success \<Rightarrow>
                  (if truthy success then
                     fetchProgramState (showToast ''Programma arrestato con successo'' ''success'' pg)
                   else
                     ([], on_stop_btns stopBtns False
                            (showToast (''Errore nell'arresto del programma: '' @ error_text data)
                               ''error'' pg)))))"

text \<open>
  \<^verbatim>\<open>deleteProgram(programId)\<close>; \<open>confirmed\<close> is the answer to the \<^verbatim>\<open>confirm\<close> dialog.
\<close>

definition deleteProgram :: "bool \<Rightarrow> string \<Rightarrow> page \<Rightarrow> request list \<times> page" where
  "deleteProgram confirmed programId pg =
     (if \<not> confirmed then ([], pg)
      else ([POST ''/delete_program'' (Some (JObj [(''id'', JStr programId)]))], pg))"

definition deleteProgram_response :: "response \<Rightarrow> page \<Rightarrow> request list \<times> page" where
  "deleteProgram_response resp pg =
     (let caught = ([], showToast ''Errore di rete durante l'eliminazione del programma''
                          ''error'' pg)
      in case json_of resp of
           Inl r \<Rightarrow> caught
         | Inr data \<Rightarrow>
             (case get_prop data ''success'' of
                Inl e \<Rightarrow> caught
              | Inr success \<Rightarrow>
                  (if truthy success then
                     loadUserSettingsAndPrograms
                       (showToast ''Programma eliminato con successo'' ''success'' pg)
                   else
                     ([], showToast (''Errore nell'eliminazione del programma: '' @ error_text data)
                            ''error'' pg))))"

text \<open>
  \<^verbatim>\<open>document.getElementById\<close> over the elements with an \<^verbatim>\<open>id\<close> inside the cards, in
  document order: in a card the icon comes before the switch.
\<close>

datatype element = AutoIcon | AutoSwitch

definition has_id :: "string \<Rightarrow> card \<Rightarrow> element option" where
  "has_id i c =
     (if (case auto_icon c of None \<Rightarrow> False | Some ic \<Rightarrow> icon_id ic = i) then Some AutoIcon
      else if (case auto_switch c of None \<Rightarrow> False | Some sw \<Rightarrow> switch_id sw = i)
        then Some AutoSwitch
      else None)"

fun getElementById :: "string \<Rightarrow> node list \<Rightarrow> (element \<times> card) option" where
  "getElementById i [] = None"
| "getElementById i (Card c # ns) =
     (case has_id i c of Some el \<Rightarrow> Some (el, c) | None \<Rightarrow> getElementById i ns)"
| "getElementById i (n # ns) = getElementById i ns"

text \<open>A change to the element that \<^verbatim>\<open>getElementById\<close> finds.\<close>

fun update_by_id :: "string \<Rightarrow> (element \<Rightarrow> card \<Rightarrow> card) \<Rightarrow> node list \<Rightarrow> node list" where
  "update_by_id i f [] = []"
| "update_by_id i f (Card c # ns) =
     (case has_id i c of
        Some el \<Rightarrow> Card (f el c) # ns
      | None \<Rightarrow> Card c # update_by_id i f ns)"
| "update_by_id i f (n # ns) = n # update_by_id i f ns"

text \<open>
  \<^verbatim>\<open>const autoSwitch = document.getElementById(...); if (autoSwitch) autoSwitch.checked = v\<close>.
  On an element that is not the checkbox the assignment creates a property nothing
  reads.
\<close>

definition set_switch_checked :: "string \<Rightarrow> bool \<Rightarrow> page \<Rightarrow> page" where
  "set_switch_checked i v pg =
     pg\<lparr>container :=
          map_option
            (update_by_id i (\<lambda>el c. case el of
                 AutoSwitch \<Rightarrow> c\<lparr>auto_switch := map_option (\<lambda>sw. sw\<lparr>checked := v\<rparr>) (auto_switch c)\<rparr>
               | AutoIcon \<Rightarrow> c))
            (container pg)\<rparr>"

text \<open>
  The update of the icon: the class, then the text of its \<^verbatim>\<open>span\<close>; without a
  \<^verbatim>\<open>span\<close> the second assignment throws after the first was made.
\<close>

definition set_auto_icon :: "string \<Rightarrow> bool \<Rightarrow> page \<Rightarrow> js_error option \<times> page" where
  "set_auto_icon i enable pg =
     (case getElementById i (case container pg of None \<Rightarrow> [] | Some ns \<Rightarrow> ns) of
        None \<Rightarrow> (None, pg)
      | Some (AutoSwitch, c) \<Rightarrow> (Some TypeError, pg)
      | Some (AutoIcon, c) \<Rightarrow>
          (let with_icon = (\<lambda>g. pg\<lparr>container :=
                  map_option (update_by_id i (\<lambda>el c. c\<lparr>auto_icon := map_option g (auto_icon c)\<rparr>))
                    (container pg)\<rparr>);
               cls = (if enable then ''auto-status on'' else ''auto-status off'')
           in case auto_icon c of
                None \<Rightarrow> (None, pg)
              | Some ic \<Rightarrow>
                  (case icon_span ic of
                     None \<Rightarrow> (Some TypeError, with_icon (\<lambda>ic. ic\<lparr>icon_class := cls\<rparr>))
                   | Some old \<Rightarrow>
                       (None, with_icon (\<lambda>ic. ic\<lparr>icon_class := cls,
                             icon_span := Some (''Attivazione automatica: ''
                                                @ (if enable then ''ON'' else ''OFF''))\<rparr>)))))"

text \<open>
  \<^verbatim>\<open>if (programsData[programId]) programsData[programId].automatic_enabled = enable\<close>.
\<close>

definition set_automatic_enabled :: "string \<Rightarrow> bool \<Rightarrow> jsval \<Rightarrow> jsval" where
  "set_automatic_enabled programId enable pd =
     with_entries pd
       (map (\<lambda>(k, v). if k = programId \<and> truthy v
                       then (k, set_prop v ''automatic_enabled'' (JBool enable)) else (k, v))
          (own_entries pd))"

definition toggleProgramAutomatic :: "string \<Rightarrow> bool \<Rightarrow> page \<Rightarrow> request list \<times> page" where
  "toggleProgramAutomatic programId enable pg =
     ([POST ''/toggle_program_automatic''
         (Some (JObj [(''program_id'', JStr programId), (''enable'', JBool enable)]))],
      pg)"

definition toggle_caught :: "string \<Rightarrow> bool \<Rightarrow> page \<Rightarrow> page" where
  "toggle_caught programId enable pg =
     set_switch_checked (''auto-switch-'' @ programId) (\<not> enable)
       (showToast ''Errore di rete'' ''error'' pg)"

definition toggleProgramAutomatic_response :: "string \<Rightarrow> bool \<Rightarrow> response \<Rightarrow> page \<Rightarrow> page" where
  "toggleProgramAutomatic_response programId enable resp pg =
     (case json_of resp of
        Inl r \<Rightarrow> toggle_caught programId enable pg
      | Inr data \<Rightarrow>
          (case get_prop data ''success'' of
             Inl e \<Rightarrow> toggle_caught programId enable pg
           | Inr success \<Rightarrow>
               (if truthy success then
                  (let pg1 = showToast (''Automazione del programma ''
                                        @ (if enable then ''attivata'' else ''disattivata'')
                                        @ '' con successo'') ''success'' pg;
                       pg2 = set_switch_checked (''auto-switch-'' @ programId) enable pg1
                   in case set_auto_icon (''auto-icon-'' @ programId) enable pg2 of
                        (Some e, pg3) \<Rightarrow> toggle_caught programId enable pg3
                      | (None, pg3) \<Rightarrow>
                          pg3\<lparr>programsData :=
                                set_automatic_enabled programId enable (programsData pg3)\<rparr>)
                else
                  set_switch_checked (''auto-switch-'' @ programId) (\<not> enable)
                    (showToast (''Errore: '' @ error_text data) ''error'' pg))))"

section \<open>Events\<close>

text \<open>
  The script runs in response to events, one handler at a time: the page is
  initialised (\<^verbatim>\<open>initializeViewProgramsPage\<close> runs, as the listener of
  \<^verbatim>\<open>DOMContentLoaded\<close> or called by its global name); a timer with a given handle
  fires (a cleared timer does not, a running one calls \<^verbatim>\<open>fetchProgramState\<close>); the page is hidden; a response arrives for a request issued
  earlier, with what its handler captured when the request was made; the user clicks a
  button of a card or the retry button, answers the confirmation of a deletion, or
  changes a switch. A start carries the answer of the selector engine for an
  identifier that needs escaping; an exception that leaves a handler ends it.
\<close>

datatype event =
    PageInit
  | Tick nat
  | PageHide
  | StateResponse response
  | LoadResponse "(nat \<times> response) list"
  | RetryClick
  | StartClick string "js_error + target option"
  | StartResponse "target option" response
  | StopClick
  | StopResponse "nat list" response
  | DeleteClick bool string
  | DeleteResponse response
  | ToggleChange string bool
  | ToggleResponse string bool response

fun step :: "event \<Rightarrow> page \<Rightarrow> request list \<times> page" where
  "step PageInit pg = initializeViewProgramsPage pg"
| "step (Tick h) pg =
     (if h \<in> set (map fst (intervals pg)) then fetchProgramState pg else ([], pg))"
| "step PageHide pg =
     (if pagehide_listener pg then ([], cleanupViewProgramsPage pg) else ([], pg))"
| "step (StateResponse resp) pg = ([], fetchProgramState_response resp pg)"
| "step (LoadResponse arrived) pg = ([], loadUserSettingsAndPrograms_response arrived pg)"
| "step RetryClick pg = loadUserSettingsAndPrograms pg"
| "step (StartClick programId beyond) pg =
     (case startProgram programId beyond pg of
        Inl e \<Rightarrow> ([], pg)
      | Inr (reqs, startBtn, pg1) \<Rightarrow> (reqs, pg1))"
| "step (StartResponse startBtn resp) pg = startProgram_response startBtn resp pg"
| "step StopClick pg = (case stopProgram pg of (reqs, stopBtns, pg1) \<Rightarrow> (reqs, pg1))"
| "step (StopResponse stopBtns resp) pg = stopProgram_response stopBtns resp pg"
| "step (DeleteClick confirmed programId) pg = deleteProgram confirmed programId pg"
| "step (DeleteResponse resp) pg = deleteProgram_response resp pg"
| "step (ToggleChange programId enable) pg = toggleProgramAutomatic programId enable pg"
| "step (ToggleResponse programId enable resp) pg =
     ([], toggleProgramAutomatic_response programId enable resp pg)"


text \<open>The page when the script has been evaluated and no event has been handled.\<close>

definition initial_page :: page where
  "initial_page =
     \<lparr>programStatusInterval = None,
      programsData = JObj [],
      globalAutomationEnabled = JBool False,
      page_title = Some [],
      container = Some [Loading],
      next_uid = 0,
      intervals = [],
      next_handle = 1,
      pagehide_listener = False,
      showToast_defined = True,
      toasts = []\<rparr>"

section \<open>A page with two programs\<close>

text \<open>
  Concrete data on which the functions above are evaluated: settings with two zones,
  two programs, the first with two steps, and a run state in which the first program
  is running.
  \<open>example_page\<close> is the page after initialisation and a successful load of them.
\<close>

definition example_settings :: jsval where
  "example_settings =
     JObj [(''automatic_programs_enabled'', JBool True),
           (''zones'', JArr [JObj [(''id'', JNum 0), (''name'', JStr ''Orto'')],
                             JObj [(''id'', JNum 1)]])]"

definition example_programs :: jsval where
  "example_programs =
     JObj [(''1'', JObj [(''name'', JStr ''Mattino''),
                         (''activation_time'', JStr ''06:30''),
                         (''recurrence'', JStr ''personalizzata''),
                         (''interval_days'', JNum 3),
                         (''months'', JArr [JStr ''Marzo'', JStr ''Luglio'']),
                         (''steps'', JArr [JObj [(''zone_id'', JNum 0), (''duration'', JNum 10)],
                                           JObj [(''zone_id'', JNum 1)]])]),
           (''2'', JObj [(''name'', JStr ''Sera''),
                         (''recurrence'', JStr ''giornaliero''),
                         (''automatic_enabled'', JBool False)])]"

definition example_state :: jsval where
  "example_state = JObj [(''program_running'', JBool True), (''current_program_id'', JStr ''1'')]"

definition ok_response :: "jsval \<Rightarrow> response" where
  "ok_response v = Response True (Inr v)"

definition example_page :: page where
  "example_page =
     loadUserSettingsAndPrograms_response
       [(1, ok_response example_programs), (0, ok_response example_settings),
        (2, ok_response example_state)]
       (snd (initializeViewProgramsPage initial_page))"

text \<open>A card of the second program, marked as running, as a poll would find it stale.\<close>

definition example_card :: card where
  "example_card =
     \<lparr>uid = 7,
      data_program_id = Some ''2'',
      active_program = True,
      program_header = True,
      title = ''Sera'',
      active_indicators = 1,
      orario = ''Non impostato'',
      cadenza = ''Ogni giorno'',
      ultima_esecuzione = ''Mai eseguito'',
      months_grid = [],
      zones_grid = NoZones,
      auto_icon = None,
      auto_switch = Some \<lparr>switch_id = ''auto-switch-2'', checked = False\<rparr>,
      btn_start = Some \<lparr>cls_disabled = True, disabled = True\<rparr>,
      btn_stop = Some \<lparr>cls_disabled = False, disabled = False\<rparr>,
      btn_delete = Some \<lparr>cls_disabled = False, disabled = False\<rparr>\<rparr>"

text \<open>A response with a successful status whose value reports a failure.\<close>

definition failure_response :: response where
  "failure_response = Response True (Inr (JObj [(''success'', JBool False), (''error'', JStr ''occupato'')]))"

section \<open>The timer state\<close>

text \<open>
  What the poller's life cycle rests on: the stored handle, the running timers, and
  whether the \<^verbatim>\<open>pagehide\<close> listener is registered.
\<close>

definition timers :: "page \<Rightarrow> nat option \<times> (nat \<times> nat) list \<times> bool" where
  "timers pg = (programStatusInterval pg, intervals pg, pagehide_listener pg)"
section \<open>Properties of the recurrence text\<close>

lemma set_has_JStr: "set_has elems (JStr s) \<longleftrightarrow> JStr s \<in> set elems"
proof -
  have "same_value_zero e (JStr s) \<longleftrightarrow> e = JStr s" for e
    by (cases e) auto
  then show ?thesis
    by (auto simp: set_has_def list_ex_iff)
qed

lemma strict_eq_JStr: "strict_eq v (JStr s) \<longleftrightarrow> v = JStr s"
  by (cases v) auto

lemma strict_eq_JNum: "strict_eq v (JNum n) \<longleftrightarrow> v = JNum n"
  by (cases v) auto

lemma digit_value: "k < 10 \<Longrightarrow> of_char (''0123456789'' ! k) - 48 = k"
proof -
  have "\<forall>k \<in> set [0..<10]. (of_char (''0123456789'' ! k) :: nat) - 48 = k"
    by code_simp
  then show "k < 10 \<Longrightarrow> of_char (''0123456789'' ! k) - 48 = k"
    by simp
qed

lemma read_show_nat: "read_nat (show_nat n) = n"
proof (induction n rule: show_nat.induct)
  case (1 n)
  show ?case
  proof (cases "n < 10")
    case True
    then show ?thesis
      by (simp add: show_nat.simps [of n] read_nat_def digit_value)
  next
    case False
    with "1" have ih: "read_nat (show_nat (n div 10)) = n div 10"
      by simp
    have "read_nat (show_nat n)
            = 10 * read_nat (show_nat (n div 10)) + (of_char (''0123456789'' ! (n mod 10)) - 48)"
      using False by (simp add: show_nat.simps [of n] read_nat_def)
    also have "\<dots> = 10 * (n div 10) + n mod 10"
      by (simp add: ih digit_value)
    finally show ?thesis by simp
  qed
qed

lemma formatRecurrence_personalizzata:
  "formatRecurrence (JStr ''personalizzata'') d =
     JStr (''Ogni '' @ to_string (js_or d (JNum 1)) @ '' giorn''
           @ (if d = JNum 1 then ''o'' else ''i''))"
  by (simp add: formatRecurrence_def strict_eq_JNum)

lemma formatRecurrence_number:
  "n \<noteq> 0 \<Longrightarrow> 0 \<le> sint n \<Longrightarrow>
   formatRecurrence (JStr ''personalizzata'') (JNum n) =
     JStr (''Ogni '' @ show_nat (nat (sint n)) @ '' giorn'' @ (if n = 1 then ''o'' else ''i''))"
  by (simp add: formatRecurrence_personalizzata js_or_def show_int_def)

text \<open>
  C2. \<^verbatim>\<open>formatRecurrence\<close> maps the kind \<^verbatim>\<open>'giornaliero'\<close> to "Ogni giorno" and the kind
  \<^verbatim>\<open>'giorni_alterni'\<close> to "Giorni alterni", whatever the interval. For the kind
  \<^verbatim>\<open>'personalizzata'\<close> the text is "Ogni", the count and the day noun: "Ogni 1 giorno"
  for the interval 1, "Ogni 2 giorni" and "Ogni 15 giorni" for 2 and 15; for every
  value the noun ends in "o" exactly when \<^verbatim>\<open>interval_days\<close> is the number 1 and in "i"
  otherwise; and for every integer interval \<open>n\<close> greater than 1 the text is "Ogni",
  the decimal numeral of \<open>n\<close> and the plural "giorni".
\<close>

theorem formatRecurrence_kinds:
  "formatRecurrence (JStr ''giornaliero'') d = JStr ''Ogni giorno''
   \<and> formatRecurrence (JStr ''giorni_alterni'') d = JStr ''Giorni alterni''
   \<and> formatRecurrence (JStr ''personalizzata'') (JNum 1) = JStr ''Ogni 1 giorno''
   \<and> formatRecurrence (JStr ''personalizzata'') (JNum 2) = JStr ''Ogni 2 giorni''
   \<and> formatRecurrence (JStr ''personalizzata'') (JNum 15) = JStr ''Ogni 15 giorni''
   \<and> (\<exists>count. formatRecurrence (JStr ''personalizzata'') d
         = JStr (''Ogni '' @ count @ '' giorn'' @ (if d = JNum 1 then ''o'' else ''i'')))
   \<and> (1 < sint n \<longrightarrow>
        (\<exists>count. formatRecurrence (JStr ''personalizzata'') (JNum n)
                   = JStr (''Ogni '' @ count @ '' giorni'')
                 \<and> int (read_nat count) = sint n))"
proof -
  have one: "show_nat (Suc 0) = ''1''"
    by code_simp
  have two: "show_nat 2 = ''2''"
    by code_simp
  have fifteen: "show_nat 15 = ''15''"
    by code_simp
  have "formatRecurrence (JStr ''giornaliero'') d = JStr ''Ogni giorno''"
    by (simp add: formatRecurrence_def)
  moreover have "formatRecurrence (JStr ''giorni_alterni'') d = JStr ''Giorni alterni''"
    by (simp add: formatRecurrence_def)
  moreover have "formatRecurrence (JStr ''personalizzata'') (JNum 1) = JStr ''Ogni 1 giorno''"
    by (simp add: formatRecurrence_number one)
  moreover have "formatRecurrence (JStr ''personalizzata'') (JNum 2) = JStr ''Ogni 2 giorni''"
    by (simp add: formatRecurrence_number two)
  moreover have "formatRecurrence (JStr ''personalizzata'') (JNum 15) = JStr ''Ogni 15 giorni''"
    by (simp add: formatRecurrence_number fifteen)
  moreover have "\<exists>count. formatRecurrence (JStr ''personalizzata'') d
         = JStr (''Ogni '' @ count @ '' giorn'' @ (if d = JNum 1 then ''o'' else ''i''))"
    unfolding formatRecurrence_personalizzata by blast
  moreover have "\<exists>count. formatRecurrence (JStr ''personalizzata'') (JNum n)
                   = JStr (''Ogni '' @ count @ '' giorni'')
                 \<and> int (read_nat count) = sint n" if n: "1 < sint n"
  proof -
    from n have "n \<noteq> 0" "n \<noteq> 1" "0 \<le> sint n"
      by auto
    then have "formatRecurrence (JStr ''personalizzata'') (JNum n)
                 = JStr (''Ogni '' @ show_nat (nat (sint n)) @ '' giorni'')"
      by (simp add: formatRecurrence_number)
    moreover have "int (read_nat (show_nat (nat (sint n)))) = sint n"
      using n by (simp add: read_show_nat)
    ultimately show ?thesis by blast
  qed
  ultimately show ?thesis by blast
qed

theorem formatRecurrence_kinds_witness:
  "(1::int) < sint (365 :: 54 word)
   \<and> formatRecurrence (JStr ''personalizzata'') (JNum 365) = JStr ''Ogni 365 giorni''
   \<and> formatRecurrence (JStr ''personalizzata'') (JNum 1) = JStr ''Ogni 1 giorno''"
proof -
  have n: "(1::int) < sint (365 :: 54 word)"
    by simp
  have shown: "formatRecurrence (JStr ''personalizzata'') (JNum 365) = JStr ''Ogni 365 giorni''"
    by code_simp
  from formatRecurrence_kinds [of "JNum 365" 365]
  have "formatRecurrence (JStr ''personalizzata'') (JNum 1) = JStr ''Ogni 1 giorno''"
    by blast
  with n shown show ?thesis by blast
qed

text \<open>
  C10. For the kind \<^verbatim>\<open>'personalizzata'\<close> and an \<^verbatim>\<open>interval_days\<close> that is falsy
  (absent, \<^verbatim>\<open>null\<close>, zero, \<^verbatim>\<open>false\<close>, NaN or the empty string) the count shown is the
  default 1 and the noun is the plural: the text is "Ogni 1 giorni".
\<close>

theorem formatRecurrence_falsy_interval:
  "\<not> truthy d \<Longrightarrow> formatRecurrence (JStr ''personalizzata'') d = JStr ''Ogni 1 giorni''"
proof -
  assume falsy: "\<not> truthy d"
  have one: "show_int 1 = ''1''"
    by code_simp
  from falsy have "d \<noteq> JNum 1" by auto
  with falsy show ?thesis
    by (simp add: formatRecurrence_personalizzata js_or_def one)
qed

theorem formatRecurrence_falsy_interval_witness:
  "\<not> truthy JUndefined \<and> \<not> truthy (JNum 0)
   \<and> formatRecurrence (JStr ''personalizzata'') JUndefined = JStr ''Ogni 1 giorni''
   \<and> formatRecurrence (JStr ''personalizzata'') (JNum 0) = JStr ''Ogni 1 giorni''"
  using formatRecurrence_falsy_interval [of JUndefined]
    formatRecurrence_falsy_interval [of "JNum 0"]
  by simp

section \<open>Properties of the month grid\<close>

lemma month_tag_inj: "month_tag a m = month_tag b m \<longleftrightarrow> a = b"
  by (cases a; cases b) (simp_all add: month_tag_def)

text \<open>
  C6. For every list of active months, the empty list, \<^verbatim>\<open>null\<close> and \<^verbatim>\<open>undefined\<close>
  included, \<^verbatim>\<open>buildMonthsGrid\<close> returns the concatenation of exactly 12 entries, one per
  month from "Gennaio" to "Dicembre" in this order. The entry of a month is a
  \<^verbatim>\<open>div\<close> with the first three letters of the name, whose class is \<^verbatim>\<open>month-tag active\<close>
  if the list contains the name and \<^verbatim>\<open>month-tag inactive\<close> if it does not.
\<close>

theorem buildMonthsGrid_twelve:
  \<open>month_list activeMonths = Some xs \<Longrightarrow>
     \<exists>entries.
       buildMonthsGrid_entries activeMonths = Inr entries
       \<and> buildMonthsGrid activeMonths = Inr (concat entries)
       \<and> length entries = 12
       \<and> entries =
           map (\<lambda>month.
                  [CHR 0x0A] @ ''            <div class="month-tag ''
                    @ (if JStr month \<in> set xs then ''active'' else ''inactive'') @ ''">''
                  @ [CHR 0x0A] @ ''                '' @ take 3 month
                  @ [CHR 0x0A] @ ''            </div>''
                  @ [CHR 0x0A] @ ''        '')
             [''Gennaio'', ''Febbraio'', ''Marzo'', ''Aprile'', ''Maggio'', ''Giugno'',
              ''Luglio'', ''Agosto'', ''Settembre'', ''Ottobre'', ''Novembre'', ''Dicembre'']\<close>
proof -
  assume ml: "month_list activeMonths = Some xs"
  then have it: "iterate (js_or activeMonths (JArr [])) = Inr xs"
    by (cases activeMonths) (auto simp: js_or_def)
  let ?entries = "map (\<lambda>month. month_tag (JStr month \<in> set xs) month) months"
  have e: "buildMonthsGrid_entries activeMonths = Inr ?entries"
    by (simp add: buildMonthsGrid_entries_def it set_has_JStr)
  have g: "buildMonthsGrid activeMonths = Inr (concat ?entries)"
    by (simp add: buildMonthsGrid_def e)
  have len: "length ?entries = 12"
    by (simp add: months_def)
  have lit: \<open>?entries =
           map (\<lambda>month.
                  [CHR 0x0A] @ ''            <div class="month-tag ''
                    @ (if JStr month \<in> set xs then ''active'' else ''inactive'') @ ''">''
                  @ [CHR 0x0A] @ ''                '' @ take 3 month
                  @ [CHR 0x0A] @ ''            </div>''
                  @ [CHR 0x0A] @ ''        '')
             [''Gennaio'', ''Febbraio'', ''Marzo'', ''Aprile'', ''Maggio'', ''Giugno'',
              ''Luglio'', ''Agosto'', ''Settembre'', ''Ottobre'', ''Novembre'', ''Dicembre'']\<close>
    unfolding months_def month_tag_def nl_def by (rule refl)
  from e g len lit show ?thesis by blast
qed

theorem buildMonthsGrid_twelve_witness:
  \<open>month_list (JArr [JStr ''Marzo'', JStr ''Luglio'']) = Some [JStr ''Marzo'', JStr ''Luglio'']
   \<and> (\<exists>entries. buildMonthsGrid_entries (JArr [JStr ''Marzo'', JStr ''Luglio'']) = Inr entries
        \<and> length entries = 12
        \<and> entries ! 2 = [CHR 0x0A] @ ''            <div class="month-tag active">''
                         @ [CHR 0x0A] @ ''                Mar''
                         @ [CHR 0x0A] @ ''            </div>''
                         @ [CHR 0x0A] @ ''        ''
        \<and> entries ! 3 = [CHR 0x0A] @ ''            <div class="month-tag inactive">''
                         @ [CHR 0x0A] @ ''                Apr''
                         @ [CHR 0x0A] @ ''            </div>''
                         @ [CHR 0x0A] @ ''        '')\<close>
proof -
  have ml: "month_list (JArr [JStr ''Marzo'', JStr ''Luglio'']) = Some [JStr ''Marzo'', JStr ''Luglio'']"
    by simp
  from buildMonthsGrid_twelve [OF ml]
  obtain entries where
    e: "buildMonthsGrid_entries (JArr [JStr ''Marzo'', JStr ''Luglio'']) = Inr entries"
    and len: "length entries = 12"
    and lit: \<open>entries =
           map (\<lambda>month.
                  [CHR 0x0A] @ ''            <div class="month-tag ''
                    @ (if JStr month \<in> set [JStr ''Marzo'', JStr ''Luglio'']
                       then ''active'' else ''inactive'') @ ''">''
                  @ [CHR 0x0A] @ ''                '' @ take 3 month
                  @ [CHR 0x0A] @ ''            </div>''
                  @ [CHR 0x0A] @ ''        '')
             [''Gennaio'', ''Febbraio'', ''Marzo'', ''Aprile'', ''Maggio'', ''Giugno'',
              ''Luglio'', ''Agosto'', ''Settembre'', ''Ottobre'', ''Novembre'', ''Dicembre'']\<close>
    by blast
  have \<open>entries ! 2 = [CHR 0x0A] @ ''            <div class="month-tag active">''
                         @ [CHR 0x0A] @ ''                Mar''
                         @ [CHR 0x0A] @ ''            </div>''
                         @ [CHR 0x0A] @ ''        ''\<close>
    unfolding lit by simp
  moreover have \<open>entries ! 3 = [CHR 0x0A] @ ''            <div class="month-tag inactive">''
                         @ [CHR 0x0A] @ ''                Apr''
                         @ [CHR 0x0A] @ ''            </div>''
                         @ [CHR 0x0A] @ ''        ''\<close>
    unfolding lit by simp
  ultimately show ?thesis
    using ml e len by blast
qed

section \<open>Properties of the poll-driven update\<close>

lemma truthy_js_and: "truthy (js_and a b) \<longleftrightarrow> truthy a \<and> truthy b"
  by (simp add: js_and_def)

lemma truthy_card_isActive:
  "truthy (card_isActive cur running c)
     \<longleftrightarrow> truthy running \<and> strict_eq (getAttribute_program_id c) cur"
  by (simp add: card_isActive_def truthy_js_and)

lemma strict_eq_JStr_left: "strict_eq (JStr s) v \<longleftrightarrow> v = JStr s"
  by (cases v) auto

lemma cards_of_map_cards: "cards_of (map_cards f pg) = map f (cards_of pg)"
proof (cases "container pg")
  case None
  then show ?thesis by simp
next
  case (Some ns)
  have "concat (map (\<lambda>n. case n of Card c \<Rightarrow> [c] | _ \<Rightarrow> [])
                  (map (\<lambda>n. case n of Card c \<Rightarrow> Card (f c) | _ \<Rightarrow> n) ns))
        = map f (concat (map (\<lambda>n. case n of Card c \<Rightarrow> [c] | _ \<Rightarrow> []) ns))"
    by (induction ns) (auto split: node.splits)
  with Some show ?thesis by simp
qed

text \<open>
  C7. On a poll tick, \<^verbatim>\<open>updateProgramsUI\<close> visits every card, and for a card that has
  both buttons there are exactly three cases: the card's program is the running one,
  and start is disabled and stop enabled; another program is running, and both are
  disabled; no program is running, and start is enabled and stop disabled. Class and
  property of a button change together.
\<close>

theorem updateProgramsUI_buttons:
  "truthy state \<Longrightarrow> typeof_object state \<Longrightarrow>
   btn_start c = Some startBtn \<Longrightarrow> btn_stop c = Some stopBtn \<Longrightarrow>
   \<exists>cur running pg'.
     get_prop state ''current_program_id'' = Inr cur
     \<and> get_prop state ''program_running'' = Inr running
     \<and> updateProgramsUI state pg = Inr pg'
     \<and> cards_of pg' = map (update_card cur running) (cards_of pg)
     \<and> (let c' = update_card cur running c;
             this_one = (truthy running \<and> strict_eq (getAttribute_program_id c) cur);
             on = \<lparr>cls_disabled = False, disabled = False\<rparr>;
             off = \<lparr>cls_disabled = True, disabled = True\<rparr>
         in (this_one \<longrightarrow> btn_start c' = Some off \<and> btn_stop c' = Some on)
          \<and> (\<not> this_one \<and> truthy running \<longrightarrow> btn_start c' = Some off \<and> btn_stop c' = Some off)
          \<and> (\<not> truthy running \<longrightarrow> btn_start c' = Some on \<and> btn_stop c' = Some off))"
proof -
  assume obj: "truthy state" "typeof_object state"
    and s: "btn_start c = Some startBtn" and t: "btn_stop c = Some stopBtn"
  from obj obtain cur running where
    cur: "get_prop state ''current_program_id'' = Inr cur"
    and running: "get_prop state ''program_running'' = Inr running"
    by (cases state) auto
  have upd: "updateProgramsUI state pg = Inr (map_cards (update_card cur running) pg)"
    by (simp add: updateProgramsUI_def bind_e_def cur running)
  have cards: "cards_of (map_cards (update_card cur running) pg)
                 = map (update_card cur running) (cards_of pg)"
    by (rule cards_of_map_cards)
  have keep: "btn_start (update_card_class a c) = Some startBtn
              \<and> btn_stop (update_card_class a c) = Some stopBtn" for a
    using s t by (simp add: update_card_class_def Let_def)
  have buttons: "let c' = update_card cur running c;
           this_one = (truthy running \<and> strict_eq (getAttribute_program_id c) cur);
           on = \<lparr>cls_disabled = False, disabled = False\<rparr>;
           off = \<lparr>cls_disabled = True, disabled = True\<rparr>
       in (this_one \<longrightarrow> btn_start c' = Some off \<and> btn_stop c' = Some on)
        \<and> (\<not> this_one \<and> truthy running \<longrightarrow> btn_start c' = Some off \<and> btn_stop c' = Some off)
        \<and> (\<not> truthy running \<longrightarrow> btn_start c' = Some on \<and> btn_stop c' = Some off)"
    using keep [of "card_isActive cur running c"]
    by (cases startBtn; cases stopBtn)
       (auto simp: update_card_def update_card_buttons_def Let_def truthy_card_isActive)
  from cur running upd cards buttons show ?thesis by blast
qed

section \<open>Properties of the rendered cards\<close>

lemma render_isActive_truthy:
  "get_prop state ''program_running'' = Inr running \<Longrightarrow>
   get_prop state ''current_program_id'' = Inr cur \<Longrightarrow>
   \<exists>a. render_isActive state pid = Inr a \<and> (truthy a \<longleftrightarrow> truthy running \<and> cur = JStr pid)"
  by (simp add: render_isActive_def bind_e_def strict_eq_JStr)

lemma bind_e_Inr: "bind_e m f = Inr y \<longleftrightarrow> (\<exists>x. m = Inr x \<and> f x = Inr y)"
  by (cases m) (simp_all add: bind_e_def)

lemma render_card_active:
  assumes r: "render_card u state pid program = Inr c"
    and running: "get_prop state ''program_running'' = Inr running"
    and cur: "get_prop state ''current_program_id'' = Inr cur"
  shows "uid c = u \<and> data_program_id c = Some pid \<and> program_header c
         \<and> (active_program c \<longleftrightarrow> truthy running \<and> cur = JStr pid)
         \<and> active_indicators c = (if truthy running \<and> cur = JStr pid then 1 else 0)"
proof -
  from render_isActive_truthy [OF running cur] obtain a where
    a: "render_isActive state pid = Inr a"
    and ta: "truthy a \<longleftrightarrow> truthy running \<and> cur = JStr pid"
    by blast
  from r a ta show ?thesis
    unfolding render_card_def bind_e_Inr Let_def by auto
qed

lemma render_cards_active:
  assumes running: "get_prop state ''program_running'' = Inr running"
    and cur: "get_prop state ''current_program_id'' = Inr cur"
  shows "render_cards state u entries = (e, ps, cs) \<Longrightarrow> c \<in> set cs \<Longrightarrow>
         \<exists>pid. data_program_id c = Some pid \<and> program_header c
           \<and> (active_program c \<longleftrightarrow> truthy running \<and> cur = JStr pid)
           \<and> active_indicators c = (if truthy running \<and> cur = JStr pid then 1 else 0)"
proof (induction entries arbitrary: u e ps cs)
  case Nil
  then show ?case by simp
next
  case (Cons entry entries)
  obtain programId program where entry: "entry = (programId, program)"
    by (cases entry)
  show ?case
  proof (cases "truthy program")
    case False
    with Cons.prems entry obtain ps' where
      "render_cards state u entries = (e, ps', cs)"
      by (auto split: prod.splits)
    from Cons.IH [OF this Cons.prems(2)] show ?thesis .
  next
    case True
    define program1 where
      "program1 = (if get_prop program ''id'' = Inr JUndefined
                   then set_prop program ''id'' (JStr programId) else program)"
    show ?thesis
    proof (cases "render_card u state programId program1")
      case (Inl err)
      with Cons.prems entry True have "cs = []"
        by (simp add: program1_def Let_def)
      with Cons.prems(2) show ?thesis by simp
    next
      case (Inr c1)
      with Cons.prems(1) entry True obtain e' ps' cs' where
        rec: "render_cards state (Suc u) entries = (e', ps', cs')"
        and cs: "cs = c1 # cs'"
        by (auto simp: program1_def Let_def split: prod.splits)
      from Cons.prems(2) cs consider "c = c1" | "c \<in> set cs'"
        by auto
      then show ?thesis
      proof cases
        case 1
        with render_card_active [OF Inr running cur] show ?thesis by blast
      next
        case 2
        from Cons.IH [OF rec 2] show ?thesis .
      qed
    qed
  qed
qed

lemma renderProgramCards_cards:
  "renderProgramCards programs state pg = (e, ps, pg2) \<Longrightarrow> c \<in> set (cards_of pg2) \<Longrightarrow>
   \<exists>entries ps' cs. render_cards state (next_uid pg) entries = (e, ps', cs)
                    \<and> c \<in> set cs"
proof -
  assume r: "renderProgramCards programs state pg = (e, ps, pg2)" and c: "c \<in> set (cards_of pg2)"
  show ?thesis
  proof (cases "container pg")
    case None
    with r have "pg2 = pg" by (simp add: renderProgramCards_def)
    with None c show ?thesis by simp
  next
    case (Some old)
    let ?entries = "if truthy programs then own_entries programs else []"
    show ?thesis
    proof (cases "\<not> truthy programs \<or> length ?entries = 0")
      case True
      with r Some have "pg2 = pg\<lparr>container := Some [EmptyState]\<rparr>"
        by (auto simp: renderProgramCards_def Let_def)
      with c show ?thesis by simp
    next
      case False
      obtain e' ps' cs where
        rc: "render_cards state (next_uid pg) ?entries = (e', ps', cs)"
        by (cases "render_cards state (next_uid pg) ?entries") auto
      with r Some False have e: "e' = e"
        and pg2: "pg2 = pg\<lparr>container := Some (map Card cs),
                            next_uid := next_uid pg + length cs\<rparr>"
        by (auto simp: renderProgramCards_def Let_def)
      have "concat (map (\<lambda>n. case n of Card c \<Rightarrow> [c] | _ \<Rightarrow> []) (map Card cs)) = cs"
        by (induction cs) auto
      with c pg2 have "c \<in> set cs" by simp
      with rc e show ?thesis by blast
    qed
  qed
qed

lemma update_card_active:
  "active_program (update_card cur running c)
     \<longleftrightarrow> truthy running \<and> strict_eq (getAttribute_program_id c) cur"
proof -
  have b: "active_program (update_card_buttons a r c') = active_program c'" for a r c'
    by (simp add: update_card_buttons_def split: option.splits)
  show ?thesis
    by (simp add: update_card_def Let_def b update_card_class_def truthy_card_isActive)
qed

lemma update_card_indicator:
  "program_header c \<Longrightarrow> active_indicators c \<le> 1 \<Longrightarrow>
   active_indicators (update_card cur running c)
     = (if truthy running \<and> strict_eq (getAttribute_program_id c) cur then 1 else 0)"
proof -
  have b: "active_indicators (update_card_buttons a r c') = active_indicators c'" for a r c'
    by (simp add: update_card_buttons_def split: option.splits)
  assume "program_header c" "active_indicators c \<le> 1"
  then show ?thesis
    by (auto simp: update_card_def Let_def b update_card_class_def truthy_card_isActive)
qed

lemma update_card_header:
  "program_header (update_card cur running c) = program_header c"
proof -
  have b: "program_header (update_card_buttons a r c') = program_header c'" for a r c'
    by (simp add: update_card_buttons_def split: option.splits)
  show ?thesis
    by (simp add: update_card_def Let_def b update_card_class_def)
qed

text \<open>
  C1. Let the run state have the properties \<^verbatim>\<open>program_running\<close> and
  \<^verbatim>\<open>current_program_id\<close> (as every object has). The poll-driven update visits every
  card, and a card with the identifier \<open>pid\<close> has the class \<^verbatim>\<open>active-program\<close> after
  it if and only if \<^verbatim>\<open>program_running\<close> is truthy and \<^verbatim>\<open>current_program_id\<close> is the
  string \<open>pid\<close>; a card with a header and at most one indicator, as the renderer builds
  them, has one "In esecuzione" indicator in that case and none otherwise. At the
  initial render every card put into the container carries its program's identifier,
  has a header, and has the class and one indicator under the same condition and no
  indicator otherwise.
\<close>

theorem running_card_iff:
  "get_prop state ''program_running'' = Inr running \<Longrightarrow>
   get_prop state ''current_program_id'' = Inr cur \<Longrightarrow>
   (\<exists>pg1. updateProgramsUI state pg = Inr pg1
          \<and> cards_of pg1 = map (update_card cur running) (cards_of pg))
   \<and> (data_program_id c = Some pid \<longrightarrow>
        (active_program (update_card cur running c) \<longleftrightarrow> truthy running \<and> cur = JStr pid)
        \<and> (program_header c \<and> active_indicators c \<le> 1 \<longrightarrow>
             active_indicators (update_card cur running c)
               = (if truthy running \<and> cur = JStr pid then 1 else 0)))
   \<and> (renderProgramCards programs state pg = (e, ps, pg2) \<longrightarrow>
        (\<forall>c2 \<in> set (cards_of pg2).
           \<exists>pid2. data_program_id c2 = Some pid2 \<and> program_header c2
             \<and> (active_program c2 \<longleftrightarrow> truthy running \<and> cur = JStr pid2)
             \<and> active_indicators c2 = (if truthy running \<and> cur = JStr pid2 then 1 else 0)))"
proof -
  assume running: "get_prop state ''program_running'' = Inr running"
    and cur: "get_prop state ''current_program_id'' = Inr cur"
  have "updateProgramsUI state pg = Inr (map_cards (update_card cur running) pg)"
    by (simp add: updateProgramsUI_def bind_e_def cur running)
  then have upd: "\<exists>pg1. updateProgramsUI state pg = Inr pg1
          \<and> cards_of pg1 = map (update_card cur running) (cards_of pg)"
    using cards_of_map_cards by blast
  have one: "data_program_id c = Some pid \<longrightarrow>
        (active_program (update_card cur running c) \<longleftrightarrow> truthy running \<and> cur = JStr pid)
        \<and> (program_header c \<and> active_indicators c \<le> 1 \<longrightarrow>
             active_indicators (update_card cur running c)
               = (if truthy running \<and> cur = JStr pid then 1 else 0))"
    by (simp add: update_card_active update_card_indicator getAttribute_program_id_def
        strict_eq_JStr_left)
  have rendered: "renderProgramCards programs state pg = (e, ps, pg2) \<longrightarrow>
        (\<forall>c2 \<in> set (cards_of pg2).
           \<exists>pid2. data_program_id c2 = Some pid2 \<and> program_header c2
             \<and> (active_program c2 \<longleftrightarrow> truthy running \<and> cur = JStr pid2)
             \<and> active_indicators c2 = (if truthy running \<and> cur = JStr pid2 then 1 else 0))"
  proof (intro impI ballI)
    fix c2
    assume r: "renderProgramCards programs state pg = (e, ps, pg2)"
      and c2: "c2 \<in> set (cards_of pg2)"
    from renderProgramCards_cards [OF r c2] obtain entries ps' cs where
      "render_cards state (next_uid pg) entries = (e, ps', cs)" "c2 \<in> set cs"
      by blast
    from render_cards_active [OF running cur this]
    show "\<exists>pid2. data_program_id c2 = Some pid2 \<and> program_header c2
             \<and> (active_program c2 \<longleftrightarrow> truthy running \<and> cur = JStr pid2)
             \<and> active_indicators c2 = (if truthy running \<and> cur = JStr pid2 then 1 else 0)" .
  qed
  from upd one rendered show ?thesis by blast
qed

section \<open>Properties of the automation switch\<close>

lemma container_showToast [simp]: "container (showToast m k pg) = container pg"
  by (simp add: showToast_def)


lemma getElementById_update_by_id:
  assumes same: "\<And>el c. has_id i (f el c) = has_id i c"
  shows "getElementById i (update_by_id i f ns)
           = map_option (\<lambda>(el, c). (el, f el c)) (getElementById i ns)"
proof (induction ns)
  case Nil
  then show ?case by simp
next
  case (Cons n ns)
  then show ?case
    by (cases n) (auto simp: same split: option.splits)
qed

lemma getElementById_set_switch_checked:
  assumes ns: "container pg = Some ns"
    and found: "getElementById i ns = Some (AutoSwitch, c)"
  shows "\<exists>ns' c' sw. container (set_switch_checked i v pg) = Some ns'
           \<and> getElementById i ns' = Some (AutoSwitch, c')
           \<and> auto_switch c' = Some sw \<and> switch_id sw = i \<and> checked sw = v"
proof -
  let ?f = "\<lambda>el c. case el of
                AutoSwitch \<Rightarrow> c\<lparr>auto_switch := map_option (\<lambda>sw. sw\<lparr>checked := v\<rparr>) (auto_switch c)\<rparr>
              | AutoIcon \<Rightarrow> c"
  have same: "has_id i (?f el c) = has_id i c" for el c
    by (cases "auto_switch c") (auto simp: has_id_def split: element.splits)
  from found have "has_id i c = Some AutoSwitch"
  proof (induction ns)
    case Nil
    then show ?case by simp
  next
    case (Cons n ns)
    then show ?case
      by (cases n) (auto split: option.splits)
  qed
  then obtain sw where sw: "auto_switch c = Some sw" and sid: "switch_id sw = i"
    by (auto simp: has_id_def split: if_splits option.splits)
  define c' where "c' = c\<lparr>auto_switch := Some (sw\<lparr>checked := v\<rparr>)\<rparr>"
  have fc: "?f AutoSwitch c = c'"
    by (simp add: sw c'_def)
  have "getElementById i (update_by_id i ?f ns) = Some (AutoSwitch, ?f AutoSwitch c)"
    by (simp add: getElementById_update_by_id [of i ?f, OF same] found)
  then have g: "getElementById i (update_by_id i ?f ns) = Some (AutoSwitch, c')"
    by (simp only: fc)
  have cont: "container (set_switch_checked i v pg) = Some (update_by_id i ?f ns)"
    using ns by (simp add: set_switch_checked_def)
  have "auto_switch c' = Some (sw\<lparr>checked := v\<rparr>)"
    by (simp add: c'_def)
  moreover have "switch_id (sw\<lparr>checked := v\<rparr>) = i" "checked (sw\<lparr>checked := v\<rparr>) = v"
    using sid by simp_all
  ultimately show ?thesis
    using cont g by blast
qed

lemma toggle_unsuccessful:
  "unsuccessful resp \<Longrightarrow>
   \<exists>message. toggleProgramAutomatic_response programId enable resp pg
     = set_switch_checked (''auto-switch-'' @ programId) (\<not> enable) (showToast message ''error'' pg)"
  unfolding unsuccessful_def toggleProgramAutomatic_response_def toggle_caught_def
  by (auto split: sum.splits)

text \<open>
  C3. \<^verbatim>\<open>toggleProgramAutomatic(programId, enable)\<close> issues one request, a POST to
  \<^verbatim>\<open>/toggle_program_automatic\<close> whose body is the object with \<^verbatim>\<open>program_id\<close> equal to
  that identifier and \<^verbatim>\<open>enable\<close> equal to that boolean, and changes nothing else. When
  the response does not report success (its \<^verbatim>\<open>success\<close> is false, in particular), the
  checkbox with the id \<^verbatim>\<open>auto-switch-\<close>\<open>programId\<close>, if the page has it, is afterwards
  checked exactly when \<open>enable\<close> is false.
\<close>

theorem toggleProgramAutomatic_post_and_revert:
  "toggleProgramAutomatic programId enable pg =
     ([POST ''/toggle_program_automatic''
         (Some (JObj [(''program_id'', JStr programId), (''enable'', JBool enable)]))], pg)
   \<and> (unsuccessful resp \<longrightarrow> container pg = Some ns \<longrightarrow>
        getElementById (''auto-switch-'' @ programId) ns = Some (AutoSwitch, c) \<longrightarrow>
        (\<exists>ns' c' sw.
           container (toggleProgramAutomatic_response programId enable resp pg) = Some ns'
           \<and> getElementById (''auto-switch-'' @ programId) ns' = Some (AutoSwitch, c')
           \<and> auto_switch c' = Some sw
           \<and> switch_id sw = ''auto-switch-'' @ programId
           \<and> checked sw = (\<not> enable)))"
proof -
  have post: "toggleProgramAutomatic programId enable pg =
     ([POST ''/toggle_program_automatic''
         (Some (JObj [(''program_id'', JStr programId), (''enable'', JBool enable)]))], pg)"
    by (simp add: toggleProgramAutomatic_def)
  have revert: "\<exists>ns' c' sw.
           container (toggleProgramAutomatic_response programId enable resp pg) = Some ns'
           \<and> getElementById (''auto-switch-'' @ programId) ns' = Some (AutoSwitch, c')
           \<and> auto_switch c' = Some sw
           \<and> switch_id sw = ''auto-switch-'' @ programId
           \<and> checked sw = (\<not> enable)"
    if u: "unsuccessful resp" and ns: "container pg = Some ns"
      and found: "getElementById (''auto-switch-'' @ programId) ns = Some (AutoSwitch, c)"
  proof -
    from toggle_unsuccessful [OF u] obtain message where
      r: "toggleProgramAutomatic_response programId enable resp pg
            = set_switch_checked (''auto-switch-'' @ programId) (\<not> enable)
                (showToast message ''error'' pg)"
      by blast
    have "container (showToast message ''error'' pg) = Some ns"
      using ns by simp
    from getElementById_set_switch_checked [OF this found] show ?thesis
      unfolding r .
  qed
  from post revert show ?thesis by blast
qed

section \<open>Properties of the data loader\<close>

lemma first_rejection_bad_status:
  "(i, Response False body) \<in> set arrived \<Longrightarrow> \<exists>r. first_rejection arrived = Some r"
proof (induction arrived)
  case Nil
  then show ?case by simp
next
  case (Cons a arrived)
  obtain j resp where a: "a = (j, resp)" by (cases a)
  show ?case
  proof (cases "checked_json_of (load_message j) resp")
    case (Inl r)
    with a show ?thesis by simp
  next
    case (Inr v)
    with a Cons.prems have "(i, Response False body) \<in> set arrived"
      by auto
    with Cons.IH Inr a show ?thesis by simp
  qed
qed

text \<open>
  C4. \<^verbatim>\<open>loadUserSettingsAndPrograms\<close> issues its three GET requests (settings,
  programs, run state) together, before any answer is handled. If one of the responses
  that arrive has an unsuccessful status, the load fails as a whole: the fulfilment
  handler does not run, so the page is the page as it was but for one toast and, in
  a page with the container, the container's content, which is one error state with
  the retry button; no card is in it.
\<close>

theorem load_fails_as_a_whole:
  "fst (loadUserSettingsAndPrograms pg) =
     [GET ''/data/user_settings.json'', GET ''/data/program.json'', GET ''/get_program_state'']
   \<and> ((i, Response False body) \<in> set arrived \<longrightarrow> container pg = Some ns \<longrightarrow>
        (\<exists>r. loadUserSettingsAndPrograms_response arrived pg
               = (showToast ''Errore nel caricamento dei dati'' ''error'' pg)
                   \<lparr>container := Some [ErrorState r]\<rparr>)
        \<and> cards_of (loadUserSettingsAndPrograms_response arrived pg) = [])"
proof -
  have reqs: "fst (loadUserSettingsAndPrograms pg) =
     [GET ''/data/user_settings.json'', GET ''/data/program.json'', GET ''/get_program_state'']"
    by (simp add: loadUserSettingsAndPrograms_def)
  have fails: "(\<exists>r. loadUserSettingsAndPrograms_response arrived pg
               = (showToast ''Errore nel caricamento dei dati'' ''error'' pg)
                   \<lparr>container := Some [ErrorState r]\<rparr>)
        \<and> cards_of (loadUserSettingsAndPrograms_response arrived pg) = []"
    if bad: "(i, Response False body) \<in> set arrived" and ns: "container pg = Some ns"
  proof -
    from first_rejection_bad_status [OF bad] obtain r where
      "first_rejection arrived = Some r" by blast
    then have "loadUserSettingsAndPrograms_response arrived pg = load_catch r pg"
      by (simp add: loadUserSettingsAndPrograms_response_def promise_all_def)
    also have "\<dots> = (showToast ''Errore nel caricamento dei dati'' ''error'' pg)
                   \<lparr>container := Some [ErrorState r]\<rparr>"
      using ns by (simp add: load_catch_def Let_def)
    finally have eq: "loadUserSettingsAndPrograms_response arrived pg
               = (showToast ''Errore nel caricamento dei dati'' ''error'' pg)
                   \<lparr>container := Some [ErrorState r]\<rparr>" .
    then have "cards_of (loadUserSettingsAndPrograms_response arrived pg) = []"
      by simp
    with eq show ?thesis by blast
  qed
  from reqs fails show ?thesis by blast
qed

section \<open>Properties of the deletion\<close>

text \<open>
  C8. \<^verbatim>\<open>deleteProgram\<close> issues its POST to \<^verbatim>\<open>/delete_program\<close>, with the identifier
  under \<^verbatim>\<open>id\<close>, when the confirmation is accepted; when it is declined no request is
  issued and the page, the module's variables included, is left as it was.
\<close>

theorem deleteProgram_needs_confirmation:
  "deleteProgram False programId pg = ([], pg)
   \<and> deleteProgram True programId pg
       = ([POST ''/delete_program'' (Some (JObj [(''id'', JStr programId)]))], pg)
   \<and> step (DeleteClick False programId) pg = ([], pg)"
  by (simp add: deleteProgram_def)

section \<open>Properties of the action dispatchers\<close>










section \<open>Properties of the poller's life cycle\<close>

text \<open>Only initialisation and the \<^verbatim>\<open>pagehide\<close> handler touch the timer state.\<close>

lemma timers_showToast [simp]: "timers (showToast m k pg) = timers pg"
  by (simp add: timers_def showToast_def)

lemma timers_map_cards [simp]: "timers (map_cards f pg) = timers pg"
  by (simp add: timers_def)

lemma timers_set_disabled [simp]: "timers (set_disabled el v pg) = timers pg"
  by (cases el) (simp_all add: set_disabled_def del: map_cards.simps)

lemma timers_on_held [simp]: "timers (on_held startBtn v pg) = timers pg"
  by (simp add: on_held_def split: option.splits)

lemma timers_on_stop_btns [simp]: "timers (on_stop_btns stopBtns v pg) = timers pg"
  by (simp add: on_stop_btns_def del: map_cards.simps)

lemma timers_set_switch_checked [simp]: "timers (set_switch_checked i v pg) = timers pg"
  by (simp add: timers_def set_switch_checked_def)

lemma timers_set_auto_icon [simp]: "timers (snd (set_auto_icon i enable pg)) = timers pg"
  by (simp add: timers_def set_auto_icon_def Let_def
      split: option.splits prod.splits element.splits)

lemma timers_addGlobalAutomationStatus [simp]:
  "timers (addGlobalAutomationStatus enabled pg) = timers pg"
  by (simp add: timers_def addGlobalAutomationStatus_def Let_def split: option.splits)

lemma timers_renderProgramCards [simp]:
  "timers (snd (snd (renderProgramCards programs state pg))) = timers pg"
  by (simp add: timers_def renderProgramCards_def Let_def split: option.splits prod.splits)

lemma timers_load_catch [simp]: "timers (load_catch r pg) = timers pg"
proof -
  have "timers (load_catch r pg) = timers (showToast ''Errore nel caricamento dei dati'' ''error'' pg)"
    by (simp add: load_catch_def Let_def timers_def split: option.splits)
  then show ?thesis by simp
qed

lemma timers_load_then [simp]:
  "timers (snd (load_then settings programs state pg)) = timers pg"
proof (cases "get_prop settings ''automatic_programs_enabled''")
  case (Inl e)
  then show ?thesis by (simp add: load_then_def)
next
  case (Inr enabled)
  define pg3 where
    "pg3 = (addGlobalAutomationStatus (js_or enabled (JBool False)) pg)
             \<lparr>programsData := js_or programs (JObj [])\<rparr>"
  have t3: "timers pg3 = timers (addGlobalAutomationStatus (js_or enabled (JBool False)) pg)"
    by (simp add: pg3_def timers_def)
  obtain e ps pg4 where r: "renderProgramCards (programsData pg3) state pg3 = (e, ps, pg4)"
    by (cases "renderProgramCards (programsData pg3) state pg3") auto
  have "timers pg4 = timers pg3"
    using timers_renderProgramCards [of "programsData pg3" state pg3] r by simp
  moreover have "load_then settings programs state pg = (e, pg4\<lparr>programsData := ps\<rparr>)"
    using Inr r by (simp add: load_then_def Let_def pg3_def)
  moreover have "timers (pg4\<lparr>programsData := ps\<rparr>) = timers pg4"
    by (simp add: timers_def)
  ultimately show ?thesis
    using t3 by simp
qed

lemma timers_load_response [simp]:
  "timers (loadUserSettingsAndPrograms_response arrived pg) = timers pg"
proof (cases "promise_all arrived")
  case Pending
  then show ?thesis by (simp add: loadUserSettingsAndPrograms_response_def)
next
  case (Rejected r)
  then show ?thesis by (simp add: loadUserSettingsAndPrograms_response_def)
next
  case (Fulfilled v)
  obtain settings programs state where v: "v = (settings, programs, state)"
    by (cases v) auto
  obtain e pg1 where l: "load_then settings programs state pg = (e, pg1)"
    by (cases "load_then settings programs state pg") auto
  have "timers pg1 = timers pg"
    using timers_load_then [of settings programs state pg] l by simp
  with Fulfilled v l show ?thesis
    by (cases e) (simp_all add: loadUserSettingsAndPrograms_response_def)
qed

lemma timers_load [simp]: "timers (snd (loadUserSettingsAndPrograms pg)) = timers pg"
  by (simp add: loadUserSettingsAndPrograms_def timers_def split: option.splits)

lemma timers_fetchProgramState [simp]: "timers (snd (fetchProgramState pg)) = timers pg"
  by (simp add: fetchProgramState_def)

lemma timers_fetchProgramState_response [simp]:
  "timers (fetchProgramState_response resp pg) = timers pg"
  by (auto simp: fetchProgramState_response_def updateProgramsUI_def bind_e_def
      simp del: map_cards.simps split: sum.splits)


lemma timers_startProgram_response [simp]:
  "timers (snd (startProgram_response startBtn resp pg)) = timers pg"
  by (simp add: startProgram_response_def Let_def fetchProgramState_def split: sum.splits)


lemma timers_stopProgram_response [simp]:
  "timers (snd (stopProgram_response stopBtns resp pg)) = timers pg"
  by (simp add: stopProgram_response_def Let_def fetchProgramState_def split: sum.splits)

lemma timers_deleteProgram [simp]: "timers (snd (deleteProgram confirmed programId pg)) = timers pg"
  by (simp add: deleteProgram_def)

lemma timers_deleteProgram_response [simp]:
  "timers (snd (deleteProgram_response resp pg)) = timers pg"
  by (simp add: deleteProgram_response_def Let_def split: sum.splits)

lemma timers_toggle_response [simp]:
  "timers (toggleProgramAutomatic_response programId enable resp pg) = timers pg"
proof -
  have caught: "timers (toggle_caught programId en p) = timers p" for p en
    by (simp add: toggle_caught_def)
  have icon: "timers (case set_auto_icon i en p of
                        (Some e, pg3) \<Rightarrow> toggle_caught programId en2 pg3
                      | (None, pg3) \<Rightarrow> pg3\<lparr>programsData := f pg3\<rparr>)
                = timers p" for i p en en2 f
  proof (cases "set_auto_icon i en p")
    case (Pair e pg3)
    have t: "timers pg3 = timers p"
      using timers_set_auto_icon [of i en p] Pair by simp
    have "timers (pg3\<lparr>programsData := x\<rparr>) = timers pg3" for x
      by (simp add: timers_def)
    with Pair t show ?thesis
      by (cases e) (simp_all add: caught)
  qed
  show ?thesis
    by (simp add: toggleProgramAutomatic_response_def Let_def caught icon split: sum.splits)
qed











section \<open>The properties on the example page\<close>

theorem running_card_iff_witness:
  "get_prop example_state ''program_running'' = Inr (JBool True)
   \<and> get_prop example_state ''current_program_id'' = Inr (JStr ''1'')
   \<and> data_program_id example_card = Some ''2''
   \<and> \<not> active_program (update_card (JStr ''1'') (JBool True) example_card)
   \<and> active_indicators (update_card (JStr ''1'') (JBool True) example_card) = 0
   \<and> map (\<lambda>c. (data_program_id c, active_program c, active_indicators c))
        (cards_of (snd (snd (renderProgramCards example_programs example_state initial_page))))
      = [(Some ''1'', True, 1), (Some ''2'', False, 0)]"
proof -
  have running: "get_prop example_state ''program_running'' = Inr (JBool True)"
    by (simp add: example_state_def)
  have cur: "get_prop example_state ''current_program_id'' = Inr (JStr ''1'')"
    by (simp add: example_state_def)
  have pid: "data_program_id example_card = Some ''2''"
    by (simp add: example_card_def)
  have hdr: "program_header example_card \<and> active_indicators example_card \<le> 1"
    by (simp add: example_card_def)
  have rendered: "map (\<lambda>c. (data_program_id c, active_program c, active_indicators c))
        (cards_of (snd (snd (renderProgramCards example_programs example_state initial_page))))
      = [(Some ''1'', True, 1), (Some ''2'', False, 0)]"
    by code_simp
  from running_card_iff [OF running cur, of initial_page example_card "''2''"]
  have "\<not> active_program (update_card (JStr ''1'') (JBool True) example_card)
        \<and> active_indicators (update_card (JStr ''1'') (JBool True) example_card) = 0"
    using pid hdr by simp
  with running cur pid rendered show ?thesis by blast
qed

theorem updateProgramsUI_buttons_witness:
  "truthy example_state \<and> typeof_object example_state
   \<and> btn_start example_card = Some \<lparr>cls_disabled = True, disabled = True\<rparr>
   \<and> btn_stop example_card = Some \<lparr>cls_disabled = False, disabled = False\<rparr>
   \<and> btn_start (update_card (JStr ''1'') (JBool True) example_card)
        = Some \<lparr>cls_disabled = True, disabled = True\<rparr>
   \<and> btn_stop (update_card (JStr ''1'') (JBool True) example_card)
        = Some \<lparr>cls_disabled = True, disabled = True\<rparr>"
proof -
  have obj: "truthy example_state" "typeof_object example_state"
    by (simp_all add: example_state_def)
  have s: "btn_start example_card = Some \<lparr>cls_disabled = True, disabled = True\<rparr>"
    and t: "btn_stop example_card = Some \<lparr>cls_disabled = False, disabled = False\<rparr>"
    by (simp_all add: example_card_def)
  have other: "\<not> strict_eq (getAttribute_program_id example_card) (JStr ''1'')"
    by (simp add: getAttribute_program_id_def example_card_def)
  from updateProgramsUI_buttons [OF obj s t, of initial_page]
  obtain cur running where
    "get_prop example_state ''current_program_id'' = Inr cur"
    "get_prop example_state ''program_running'' = Inr running"
    and cases: "let c' = update_card cur running example_card;
             this_one = (truthy running \<and> strict_eq (getAttribute_program_id example_card) cur);
             on = \<lparr>cls_disabled = False, disabled = False\<rparr>;
             off = \<lparr>cls_disabled = True, disabled = True\<rparr>
         in (this_one \<longrightarrow> btn_start c' = Some off \<and> btn_stop c' = Some on)
          \<and> (\<not> this_one \<and> truthy running \<longrightarrow> btn_start c' = Some off \<and> btn_stop c' = Some off)
          \<and> (\<not> truthy running \<longrightarrow> btn_start c' = Some on \<and> btn_stop c' = Some off)"
    by blast
  then have "cur = JStr ''1''" "running = JBool True"
    by (simp_all add: example_state_def)
  with cases other have "btn_start (update_card (JStr ''1'') (JBool True) example_card)
        = Some \<lparr>cls_disabled = True, disabled = True\<rparr>
   \<and> btn_stop (update_card (JStr ''1'') (JBool True) example_card)
        = Some \<lparr>cls_disabled = True, disabled = True\<rparr>"
    by (simp add: Let_def)
  with obj s t show ?thesis by blast
qed

theorem toggleProgramAutomatic_post_and_revert_witness:
  "unsuccessful failure_response
   \<and> map (map_option checked \<circ> auto_switch)
       (cards_of (set_switch_checked ''auto-switch-1'' False example_page))
     = [Some False, Some False]
   \<and> (\<exists>ns' c' sw.
         container (toggleProgramAutomatic_response ''1'' False failure_response
                      (set_switch_checked ''auto-switch-1'' False example_page)) = Some ns'
         \<and> getElementById ''auto-switch-1'' ns' = Some (AutoSwitch, c')
         \<and> auto_switch c' = Some sw \<and> checked sw)"
proof -
  define pg where "pg = set_switch_checked ''auto-switch-1'' False example_page"
  define ns where "ns = the (container pg)"
  define c where "c = snd (the (getElementById ''auto-switch-1'' ns))"
  have u: "unsuccessful failure_response"
    by (simp add: unsuccessful_def failure_response_def)
  have before: "map (map_option checked \<circ> auto_switch) (cards_of pg) = [Some False, Some False]"
    unfolding pg_def by code_simp
  have ns: "container pg = Some ns"
    unfolding ns_def pg_def by code_simp
  have found: "getElementById (''auto-switch-'' @ ''1'') ns = Some (AutoSwitch, c)"
    unfolding c_def ns_def pg_def by code_simp
  from toggleProgramAutomatic_post_and_revert [of "''1''" False pg failure_response ns c]
    u ns found
  have "\<exists>ns' c' sw.
         container (toggleProgramAutomatic_response ''1'' False failure_response pg) = Some ns'
         \<and> getElementById ''auto-switch-1'' ns' = Some (AutoSwitch, c')
         \<and> auto_switch c' = Some sw \<and> checked sw"
    by auto
  with u before show ?thesis
    unfolding pg_def by blast
qed

theorem load_fails_as_a_whole_witness:
  "container example_page = Some (map Card (cards_of example_page))
   \<and> length (cards_of example_page) = 2
   \<and> container (loadUserSettingsAndPrograms_response
        [(1, ok_response example_programs), (2, Response False (Inr example_state))] example_page)
     = Some [ErrorState (Error ''Errore nel caricamento dello stato del programma'')]
   \<and> cards_of (loadUserSettingsAndPrograms_response
        [(1, ok_response example_programs), (2, Response False (Inr example_state))] example_page)
     = []"
proof -
  let ?arrived = "[(1, ok_response example_programs), (2, Response False (Inr example_state))]"
  have ns: "container example_page = Some (map Card (cards_of example_page))"
    by code_simp
  have two: "length (cards_of example_page) = 2"
    by code_simp
  have bad: "(2, Response False (Inr example_state)) \<in> set ?arrived"
    by simp
  have shown: "container (loadUserSettingsAndPrograms_response ?arrived example_page)
     = Some [ErrorState (Error ''Errore nel caricamento dello stato del programma'')]"
    by code_simp
  from load_fails_as_a_whole [of example_page 2 "Inr example_state" ?arrived
      "map Card (cards_of example_page)"] bad ns
  have "cards_of (loadUserSettingsAndPrograms_response ?arrived example_page) = []"
    by blast
  with ns two shown show ?thesis by blast
qed



end
